theory Spec2Isabelle
  imports Main "HOL-Library.Word" "HOL-Library.Sublist"
begin

section \<open>JavaScript values used by server.js\<close>

text \<open>
  A JavaScript string is a sequence of 16-bit code units. \<open>str\<close> embeds an ASCII
  literal of the source. A request field or environment variable that may be missing
  is a \<open>jsstring option\<close>; \<open>truthy\<close> is JavaScript's \<open>Boolean(v)\<close> on such a value:
  \<open>undefined\<close>, \<open>null\<close> and the empty string are falsy.
\<close>

type_synonym jschar = "16 word"
type_synonym jsstring = "jschar list"

definition str :: "string \<Rightarrow> jsstring" where
  "str s = map of_char s"

definition truthy :: "jsstring option \<Rightarrow> bool" where
  "truthy v = (case v of None \<Rightarrow> False | Some s \<Rightarrow> s \<noteq> [])"

text \<open>\<open>haystack.includes(needle)\<close>: the needle occurs at some position.\<close>

fun str_includes :: "'a list \<Rightarrow> 'a list \<Rightarrow> bool" where
  "str_includes [] needle = (needle = [])"
| "str_includes (c # cs) needle = (prefix needle (c # cs) \<or> str_includes cs needle)"

section \<open>The inference gateway and the credential pool\<close>

record client =
  baseURL :: jsstring
  apiKey :: jsstring

datatype role = System | User | Assistant

record message =
  role :: role
  content :: jsstring

text \<open>
  The stream returned by \<open>chat.completions.create\<close>: each chunk carries
  \<open>choices[0]?.delta?.content\<close> (possibly missing); the iteration ends normally or
  throws.
\<close>

datatype stream = Chunk "jsstring option" stream | Done | Throw

text \<open>
  The gateway is external: \<open>models_list c\<close> tells whether \<open>c.models.list()\<close> resolves,
  \<open>completions_create c model ms\<close> is \<open>None\<close> when the call rejects and the stream
  otherwise.
\<close>

record gateway =
  models_list :: "client \<Rightarrow> bool"
  completions_create :: "client \<Rightarrow> jsstring \<Rightarrow> message list \<Rightarrow> stream option"

datatype gateway_call = ModelsList client | CompletionsCreate client jsstring "message list"

datatype error = ClientConstructor | NoAvailableKey | StreamThrew

text \<open>
  \<open>process.env.OPENROUTER_API_KEY_1 .. 4\<close>, in this order, filtered by \<open>Boolean\<close>.
\<close>

record env =
  OPENROUTER_API_KEY_1 :: "jsstring option"
  OPENROUTER_API_KEY_2 :: "jsstring option"
  OPENROUTER_API_KEY_3 :: "jsstring option"
  OPENROUTER_API_KEY_4 :: "jsstring option"

definition filter_Boolean :: "jsstring option list \<Rightarrow> jsstring list" where
  "filter_Boolean vs = List.map_filter (\<lambda>v. if truthy v then v else None) vs"

definition openRouterKeys :: "env \<Rightarrow> jsstring list" where
  "openRouterKeys e =
     filter_Boolean
       [OPENROUTER_API_KEY_1 e, OPENROUTER_API_KEY_2 e,
        OPENROUTER_API_KEY_3 e, OPENROUTER_API_KEY_4 e]"

definition bound_client :: "jsstring \<Rightarrow> client" where
  "bound_client k = \<lparr>baseURL = str ''https://openrouter.ai/api/v1'', apiKey = k\<rparr>"

text \<open>
  \<open>createOpenAIClient\<close> reads \<open>openRouterKeys[apiKeyIndex]\<close>. Out of range the key is
  \<open>undefined\<close> and the constructor throws; the loop below never calls it there.
\<close>

definition createOpenAIClient :: "jsstring list \<Rightarrow> nat \<Rightarrow> error + client" where
  "createOpenAIClient keys apiKeyIndex =
     (if apiKeyIndex < length keys then Inr (bound_client (keys ! apiKeyIndex))
      else Inl ClientConstructor)"

text \<open>
  \<open>getWorkingClient\<close>: the \<open>for\<close> loop over the indices of the pool. The first
  component of the result is the list of gateway calls made, in order.
\<close>

function getWorkingClient_loop ::
  "gateway \<Rightarrow> jsstring list \<Rightarrow> nat \<Rightarrow> gateway_call list \<Rightarrow> gateway_call list \<times> (error + client)"
where
  "getWorkingClient_loop gw keys i calls =
     (if i < length keys then
        (case createOpenAIClient keys i of
           Inl e \<Rightarrow> getWorkingClient_loop gw keys (i + 1) calls
         | Inr c \<Rightarrow>
             if models_list gw c then (calls @ [ModelsList c], Inr c)
             else getWorkingClient_loop gw keys (i + 1) (calls @ [ModelsList c]))
      else (calls, Inl NoAvailableKey))"
  by pat_completeness auto
termination
  by (relation "measure (\<lambda>(gw, keys, i, calls). length keys - i)") auto

declare getWorkingClient_loop.simps [simp del]

definition getWorkingClient :: "gateway \<Rightarrow> jsstring list \<Rightarrow> gateway_call list \<times> (error + client)" where
  "getWorkingClient gw keys = getWorkingClient_loop gw keys 0 []"

text \<open>A credential passes the probe when the client bound to it lists the models.\<close>

definition passes :: "gateway \<Rightarrow> jsstring \<Rightarrow> bool" where
  "passes gw k = models_list gw (bound_client k)"

definition probe :: "jsstring \<Rightarrow> gateway_call" where
  "probe k = ModelsList (bound_client k)"

section \<open>The response object\<close>

text \<open>
  The JSON bodies the handlers send: \<open>{ok: false, message}\<close> and \<open>{ok: true, path}\<close>.
  \<open>res.write\<close>, \<open>res.send\<close> and \<open>res.end\<close> all flush the header, so \<open>headersSent\<close> is
  true after any of them; \<open>res.setHeader\<close> and \<open>res.status\<close> do not.
\<close>

datatype body = Failure jsstring | Published jsstring

record response =
  statusCode :: nat
  headers :: "(string \<times> string) list"
  headersSent :: bool
  written :: "jsstring list"
  sent :: "body option"
  ended :: bool

definition new_response :: response where
  "new_response =
     \<lparr>statusCode = 200, headers = [], headersSent = False, written = [], sent = None,
      ended = False\<rparr>"

definition res_setHeader :: "string \<Rightarrow> string \<Rightarrow> response \<Rightarrow> response" where
  "res_setHeader n v r = r\<lparr>headers := headers r @ [(n, v)]\<rparr>"

definition res_status :: "nat \<Rightarrow> response \<Rightarrow> response" where
  "res_status c r = r\<lparr>statusCode := c\<rparr>"

definition res_write :: "jsstring \<Rightarrow> response \<Rightarrow> response" where
  "res_write c r = r\<lparr>headersSent := True, written := written r @ [c]\<rparr>"

definition res_send :: "body \<Rightarrow> response \<Rightarrow> response" where
  "res_send b r = r\<lparr>headersSent := True, sent := Some b, ended := True\<rparr>"

definition res_end :: "response \<Rightarrow> response" where
  "res_end r = r\<lparr>headersSent := True, ended := True\<rparr>"

definition missing_fields :: response where
  "missing_fields = res_send (Failure (str ''Missing required fields'')) (res_status 400 new_response)"

section \<open>The generate route, \<open>POST /api/ask-ai\<close>\<close>

definition system_instruction :: jsstring where
  "system_instruction = str
     (''ONLY USE HTML, CSS AND JAVASCRIPT. If you want to use ICON make '' @
      ''sure to import the library first. Try to create the best UI poss'' @
      ''ible by using only HTML, CSS and JAVASCRIPT. Also, try to ellabo'' @
      ''rate as much as you can, to create something unique. ALWAYS GIVE'' @
      '' THE RESPONSE INTO A SINGLE HTML FILE'')"

definition token_limit_hint :: jsstring where
  "token_limit_hint = str
     (''You probably reached the MAX_TOKENS limit, context is too long. '' @
      ''You can start a new conversation by refreshing the page.'')"

definition closing_html :: jsstring where
  "closing_html = str ''</html>''"

definition model_id :: jsstring where
  "model_id = str ''deepseek/deepseek-v3-base:free''"

text \<open>\<open>...(v ? [f(v)] : [])\<close> inside an array literal.\<close>

definition spread_if :: "jsstring option \<Rightarrow> (jsstring \<Rightarrow> 'a) \<Rightarrow> 'a list" where
  "spread_if v f = (case v of None \<Rightarrow> [] | Some s \<Rightarrow> if truthy v then [f s] else [])"

definition messages :: "jsstring \<Rightarrow> jsstring option \<Rightarrow> jsstring option \<Rightarrow> message list" where
  "messages prompt html previousPrompt =
     [\<lparr>role = System, content = system_instruction\<rparr>] @
     spread_if previousPrompt (\<lambda>pp. \<lparr>role = User, content = pp\<rparr>) @
     spread_if html
       (\<lambda>h. \<lparr>role = Assistant, content = str ''The current code is: '' @ h @ str ''.''\<rparr>) @
     [\<lparr>role = User, content = prompt\<rparr>]"

text \<open>\<open>chunk.choices[0]?.delta?.content || ""\<close>.\<close>

definition content_of :: "jsstring option \<Rightarrow> jsstring" where
  "content_of delta = (case delta of None \<Rightarrow> [] | Some s \<Rightarrow> s)"

text \<open>
  The \<open>for await\<close> loop. Its state is \<open>completeResponse\<close>, the number of chunks taken
  from the stream so far and the response; it stops at the first chunk after which
  \<open>completeResponse\<close> includes \<open></html>\<close>, at the end of the stream, or when the
  stream throws.
\<close>

fun relay :: "stream \<Rightarrow> jsstring \<Rightarrow> nat \<Rightarrow> response \<Rightarrow> (error + jsstring) \<times> nat \<times> response" where
  "relay Done completeResponse n r = (Inr completeResponse, n, r)"
| "relay Throw completeResponse n r = (Inl StreamThrew, n, r)"
| "relay (Chunk delta rest) completeResponse n r =
     (let content = content_of delta;
          r' = res_write content r;
          completeResponse' = completeResponse @ content
      in if str_includes completeResponse' closing_html then (Inr completeResponse', Suc n, r')
         else relay rest completeResponse' (Suc n) r')"

text \<open>The stream that yields the chunks \<open>ds\<close> and then goes on as \<open>s\<close>.\<close>

fun chunks_then :: "jsstring option list \<Rightarrow> stream \<Rightarrow> stream" where
  "chunks_then [] s = s"
| "chunks_then (d # ds) s = Chunk d (chunks_then ds s)"

text \<open>The \<open>catch\<close> block of the handler.\<close>

definition on_error :: "response \<Rightarrow> response" where
  "on_error r =
     (if \<not> headersSent r then res_send (Failure token_limit_hint) (res_status 500 r)
      else res_end r)"

text \<open>
  The process-wide state declared at the top of the file: the map \<open>ipAddresses\<close>,
  and the constant \<open>MAX_REQUESTS_PER_IP\<close>.
\<close>

record server =
  ipAddresses :: "jsstring \<rightharpoonup> nat"

definition MAX_REQUESTS_PER_IP :: nat where
  "MAX_REQUESTS_PER_IP = 4"

record outcome =
  gateway_calls :: "gateway_call list"
  chunks_read :: nat
  res :: response

definition stream_headers :: "response \<Rightarrow> response" where
  "stream_headers r =
     res_setHeader ''Connection'' ''keep-alive''
       (res_setHeader ''Cache-Control'' ''no-cache''
         (res_setHeader ''Content-Type'' ''text/plain'' r))"

text \<open>
  The handler, for a request from network address \<open>ip\<close> with body fields \<open>prompt\<close>,
  \<open>html\<close> and \<open>previousPrompt\<close>. It returns the process state after the request and
  what the request did.
\<close>

definition ask_ai ::
  "env \<Rightarrow> gateway \<Rightarrow> server \<Rightarrow> jsstring \<Rightarrow> jsstring option \<Rightarrow> jsstring option \<Rightarrow> jsstring option
   \<Rightarrow> server \<times> outcome"
where
  "ask_ai e gw srv ip prompt html previousPrompt =
     (case prompt of
        None \<Rightarrow> (srv, \<lparr>gateway_calls = [], chunks_read = 0, res = missing_fields\<rparr>)
      | Some p \<Rightarrow>
          if \<not> truthy prompt
          then (srv, \<lparr>gateway_calls = [], chunks_read = 0, res = missing_fields\<rparr>)
          else
            let r = stream_headers new_response in
            (case getWorkingClient gw (openRouterKeys e) of
               (calls, Inl err) \<Rightarrow>
                 (srv, \<lparr>gateway_calls = calls, chunks_read = 0, res = on_error r\<rparr>)
             | (calls, Inr openai) \<Rightarrow>
                 let ms = messages p html previousPrompt;
                     calls' = calls @ [CompletionsCreate openai model_id ms]
                 in (case completions_create gw openai model_id ms of
                       None \<Rightarrow>
                         (srv, \<lparr>gateway_calls = calls', chunks_read = 0, res = on_error r\<rparr>)
                     | Some s \<Rightarrow>
                         (case relay s [] 0 r of
                            (Inl err, n, r') \<Rightarrow>
                              (srv, \<lparr>gateway_calls = calls', chunks_read = n, res = on_error r'\<rparr>)
                          | (Inr done, n, r') \<Rightarrow>
                              (srv, \<lparr>gateway_calls = calls', chunks_read = n, res = res_end r'\<rparr>)))))"

text \<open>Requests served one after the other by the same process.\<close>

fun serve_all ::
  "env \<Rightarrow> gateway \<Rightarrow> server \<Rightarrow> (jsstring \<times> jsstring option \<times> jsstring option \<times> jsstring option) list
   \<Rightarrow> server \<times> outcome list"
where
  "serve_all e gw srv [] = (srv, [])"
| "serve_all e gw srv ((ip, prompt, html, previousPrompt) # reqs) =
     (case ask_ai e gw srv ip prompt html previousPrompt of
        (srv', out) \<Rightarrow> (case serve_all e gw srv' reqs of (srv'', outs) \<Rightarrow> (srv'', out # outs)))"

section \<open>The publish route, \<open>POST /api/deploy\<close>\<close>

subsection \<open>String operations\<close>

text \<open>
  \<open>s.replace(/<\/body>/, r)\<close> with a pattern without flags and a replacement \<open>r\<close>
  without \<open>$\<close>: the first occurrence of the literal is replaced, and a string without
  an occurrence is returned as it is.
\<close>

fun replace_first :: "jsstring \<Rightarrow> jsstring \<Rightarrow> jsstring \<Rightarrow> jsstring" where
  "replace_first pat r [] = (if pat = [] then r else [])"
| "replace_first pat r (c # cs) =
     (if prefix pat (c # cs) then r @ drop (length pat) (c # cs)
      else c # replace_first pat r cs)"

text \<open>
  \<open>toLowerCase\<close> is the engine's. On a string of ASCII code units it maps \<open>A-Z\<close> to
  \<open>a-z\<close> and nothing else; what it does to a string with a code unit beyond ASCII
  (the Unicode case tables) is the parameter \<open>unicode_lower\<close>.
\<close>

definition ascii_lower :: "jschar \<Rightarrow> jschar" where
  "ascii_lower c = (if 0x41 \<le> c \<and> c \<le> 0x5A then c + 0x20 else c)"

definition toLowerCase :: "(jsstring \<Rightarrow> jsstring) \<Rightarrow> jsstring \<Rightarrow> jsstring" where
  "toLowerCase unicode_lower s =
     (if \<forall>c\<in>set s. c < 0x80 then map ascii_lower s else unicode_lower s)"

text \<open>The character class \<open>[a-z0-9]\<close> and the separator \<open>-\<close>.\<close>

definition alnum :: "jschar \<Rightarrow> bool" where
  "alnum c = ((0x61 \<le> c \<and> c \<le> 0x7A) \<or> (0x30 \<le> c \<and> c \<le> 0x39))"

definition dash :: jschar where
  "dash = 0x2D"

text \<open>
  \<open>s.replace(/[^a-z0-9]+/g, "-")\<close>: every maximal run of code units outside the
  class becomes one separator. The flag tells whether the scan is inside such a run.
\<close>

fun replace_runs :: "bool \<Rightarrow> jsstring \<Rightarrow> jsstring" where
  "replace_runs in_run [] = []"
| "replace_runs in_run (c # cs) =
     (if alnum c then c # replace_runs False cs
      else if in_run then replace_runs True cs
      else dash # replace_runs True cs)"

text \<open>\<open>s.split("-")\<close>: the pieces between separators; the empty string gives \<open>[""]\<close>.\<close>

fun split :: "jschar \<Rightarrow> jsstring \<Rightarrow> jsstring list" where
  "split sep [] = [[]]"
| "split sep (c # cs) =
     (if c = sep then [] # split sep cs
      else (case split sep cs of [] \<Rightarrow> [[c]] | w # ws \<Rightarrow> (c # w) # ws))"

text \<open>\<open>ws.filter(Boolean)\<close> on an array of strings, and \<open>ws.join("-")\<close>.\<close>

definition filter_nonempty :: "jsstring list \<Rightarrow> jsstring list" where
  "filter_nonempty ws = filter (\<lambda>w. w \<noteq> []) ws"

fun join :: "jsstring \<Rightarrow> jsstring list \<Rightarrow> jsstring" where
  "join sep [] = []"
| "join sep [w] = w"
| "join sep (w # ws) = w @ sep @ join sep ws"

text \<open>The chain that computes \<open>newTitle\<close> from \<open>title\<close>; \<open>slice(0, 96)\<close> is \<open>take 96\<close>.\<close>

definition newTitle :: "(jsstring \<Rightarrow> jsstring) \<Rightarrow> jsstring \<Rightarrow> jsstring" where
  "newTitle unicode_lower title =
     take 96 (join [dash] (filter_nonempty (split dash
       (replace_runs False (toLowerCase unicode_lower title)))))"

text \<open>
  The specification's wording of the same: the words of a string are its maximal
  runs of code units in \<open>[a-z0-9]\<close>, in order; the slug joins the words of the
  lowercased title by single separators and keeps the first 96 code units.
\<close>

fun words_from :: "jsstring \<Rightarrow> jsstring \<Rightarrow> jsstring list" where
  "words_from cur [] = (if cur = [] then [] else [cur])"
| "words_from cur (c # cs) =
     (if alnum c then words_from (cur @ [c]) cs
      else (if cur = [] then [] else [cur]) @ words_from [] cs)"

definition alnum_words :: "jsstring \<Rightarrow> jsstring list" where
  "alnum_words s = words_from [] s"

definition spec_slug :: "(jsstring \<Rightarrow> jsstring) \<Rightarrow> jsstring \<Rightarrow> jsstring" where
  "spec_slug unicode_lower title =
     take 96 (join [dash] (alnum_words (toLowerCase unicode_lower title)))"

subsection \<open>The hub and the handler\<close>

definition closing_body :: jsstring where
  "closing_body = str ''</body>''"

definition attribution :: jsstring where
  \<open>attribution = str
     (''<p style="border-radius: 8px; text-align: center; font-size: 12p'' @
      ''x; color: #fff; margin-top: 16px;position: fixed; left: 8px; bot'' @
      ''tom: 8px; z-index: 10; background: rgba(0, 0, 0, 0.8); padding: '' @
      ''4px 8px;">Made with <a href="https://enzostvs-deepsite.hf.space"'' @
      '' style="color: #fff;" target="_blank" >DeepSite</a> <img src="ht'' @
      ''tps://enzostvs-deepsite.hf.space/logo.svg" alt="DeepSite Logo" s'' @
      ''tyle="width: 16px; height: 16px; vertical-align: middle;"></p>'')\<close>

text \<open>The template of the descriptor; the emoji is the surrogate pair of U+1F433.\<close>

definition readme_of :: "jsstring \<Rightarrow> jsstring" where
  "readme_of t =
     str ''---\<newline>title: '' @ t @
     str ''\<newline>emoji: '' @ [0xD83D, 0xDC33] @
     str (''\<newline>colorFrom: blue\<newline>colorTo: blue\<newline>sdk: static\<newline>pinned: false\<newline>'' @
          ''tags:\<newline>  - deepsite\<newline>---\<newline>\<newline>'' @
          ''Check out the configuration reference at '' @
          ''https://huggingface.co/docs/hub/spaces-config-reference'')"

record repo =
  repo_type :: jsstring
  repo_name :: jsstring

text \<open>
  \<open>new Blob([s], {type})\<close> does not hold the code units of \<open>s\<close> but its UTF-8
  encoding: the string is read as scalar values, a surrogate pair as one value
  beyond the basic plane and a surrogate without its partner as U+FFFD, and each
  value is written as one to four bytes.
\<close>

type_synonym byte = "8 word"

definition high_surrogate :: "jschar \<Rightarrow> bool" where
  "high_surrogate c = (0xD800 \<le> c \<and> c \<le> 0xDBFF)"

definition low_surrogate :: "jschar \<Rightarrow> bool" where
  "low_surrogate c = (0xDC00 \<le> c \<and> c \<le> 0xDFFF)"

definition lone :: "jschar \<Rightarrow> nat" where
  "lone c = (if high_surrogate c \<or> low_surrogate c then 0xFFFD else unat c)"

fun scalar_values :: "jsstring \<Rightarrow> nat list" where
  "scalar_values [] = []"
| "scalar_values [c] = [lone c]"
| "scalar_values (c # d # cs) =
     (if high_surrogate c \<and> low_surrogate d
      then (0x10000 + (unat c - 0xD800) * 0x400 + (unat d - 0xDC00)) # scalar_values cs
      else lone c # scalar_values (d # cs))"

definition utf8 :: "nat \<Rightarrow> byte list" where
  "utf8 n =
     (if n < 0x80 then [of_nat n]
      else if n < 0x800 then [of_nat (0xC0 + n div 0x40), of_nat (0x80 + n mod 0x40)]
      else if n < 0x10000
      then [of_nat (0xE0 + n div 0x1000), of_nat (0x80 + (n div 0x40) mod 0x40),
            of_nat (0x80 + n mod 0x40)]
      else [of_nat (0xF0 + n div 0x40000), of_nat (0x80 + (n div 0x1000) mod 0x40),
            of_nat (0x80 + (n div 0x40) mod 0x40), of_nat (0x80 + n mod 0x40)])"

definition utf8_encode :: "jsstring \<Rightarrow> byte list" where
  "utf8_encode s = concat (map utf8 (scalar_values s))"

text \<open>
  For the statements about the encoding: a string is well formed when its
  surrogates come in pairs, a high one followed by a low one; \<open>utf16\<close> writes scalar
  values back as code units; \<open>byte_of\<close> is the byte of an ASCII code unit.
\<close>

fun well_formed :: "jsstring \<Rightarrow> bool" where
  "well_formed [] = True"
| "well_formed [c] = (\<not> high_surrogate c \<and> \<not> low_surrogate c)"
| "well_formed (c # d # cs) =
     (if high_surrogate c then low_surrogate d \<and> well_formed cs
      else \<not> low_surrogate c \<and> well_formed (d # cs))"

definition utf16 :: "nat \<Rightarrow> jsstring" where
  "utf16 n =
     (if n < 0x10000 then [of_nat n]
      else [of_nat (0xD800 + (n - 0x10000) div 0x400), of_nat (0xDC00 + (n - 0x10000) mod 0x400)])"

definition utf16_encode :: "nat list \<Rightarrow> jsstring" where
  "utf16_encode ns = concat (map utf16 ns)"

definition byte_of :: "jschar \<Rightarrow> byte" where
  "byte_of c = of_nat (unat c)"

record blob =
  blob_name :: jsstring
  blob_type :: jsstring
  blob_content :: "byte list"

text \<open>
  The hub is external. \<open>whoAmI\<close> gives the \<open>name\<close> of the token's user, or the message
  of the error it throws (\<open>Inl\<close>); \<open>createRepo\<close> and \<open>uploadFiles\<close> give \<open>None\<close> when
  they resolve and the message of the error otherwise.
\<close>

record hub =
  whoAmI :: "jsstring \<Rightarrow> jsstring + jsstring"
  createRepo :: "repo \<Rightarrow> jsstring \<Rightarrow> jsstring option"
  uploadFiles :: "repo \<Rightarrow> blob list \<Rightarrow> jsstring \<Rightarrow> jsstring option"

datatype hub_call =
  WhoAmI jsstring
| CreateRepo repo jsstring
| UploadFiles repo "blob list" jsstring

definition publish_failure :: "jsstring \<Rightarrow> response" where
  "publish_failure msg = res_send (Failure msg) (res_status 500 new_response)"

text \<open>The end of the \<open>try\<close> block: the files are collected and uploaded.\<close>

definition upload ::
  "hub \<Rightarrow> jsstring \<Rightarrow> hub_call list \<Rightarrow> repo \<Rightarrow> blob \<Rightarrow> jsstring option \<Rightarrow> hub_call list \<times> response"
where
  "upload h hf_token calls rp file readme =
     (let files = [file] @
            spread_if readme
              (\<lambda>rd. \<lparr>blob_name = str ''README.md'', blob_type = str ''text/markdown'',
                      blob_content = utf8_encode rd\<rparr>);
          calls' = calls @ [UploadFiles rp files hf_token]
      in case uploadFiles h rp files hf_token of
           Some msg \<Rightarrow> (calls', publish_failure msg)
         | None \<Rightarrow> (calls', res_send (Published (repo_name rp)) (res_status 200 new_response)))"

text \<open>The handler after the check of the required fields, on the strings \<open>html\<close> and \<open>title\<close>.\<close>

definition deploy_checked ::
  "hub \<Rightarrow> (jsstring \<Rightarrow> jsstring) \<Rightarrow> jsstring \<Rightarrow> jsstring \<Rightarrow> jsstring \<Rightarrow> jsstring option
   \<Rightarrow> hub_call list \<times> response"
where
  "deploy_checked h unicode_lower hf_token html title path =
     (let newHtml =
            (if \<not> truthy path then replace_first closing_body (attribution @ closing_body) html
             else html);
          file = \<lparr>blob_name = str ''index.html'', blob_type = str ''text/html'',
                  blob_content = utf8_encode newHtml\<rparr>;
          rp = \<lparr>repo_type = str ''space'',
                repo_name = (case path of None \<Rightarrow> [] | Some p \<Rightarrow> p)\<rparr>
      in if \<not> truthy path \<or> path = Some []
         then (case whoAmI h hf_token of
                 Inl msg \<Rightarrow> ([WhoAmI hf_token], publish_failure msg)
               | Inr username \<Rightarrow>
                   let t = newTitle unicode_lower title;
                       repoId = username @ str ''/'' @ t;
                       rp' = rp\<lparr>repo_name := repoId\<rparr>
                   in (case createRepo h rp' hf_token of
                         Some msg \<Rightarrow>
                           ([WhoAmI hf_token, CreateRepo rp' hf_token], publish_failure msg)
                       | None \<Rightarrow>
                           upload h hf_token [WhoAmI hf_token, CreateRepo rp' hf_token] rp' file
                             (Some (readme_of t))))
         else upload h hf_token [] rp file None)"

text \<open>
  The handler, for the body fields \<open>html\<close>, \<open>title\<close> and \<open>path\<close> and the cookie
  \<open>hf_token\<close>; it runs after the middleware \<open>checkUser\<close>, which is not in \<open>server.js\<close>.
  It returns the calls made to the hub, in order, and the response.
\<close>

definition deploy ::
  "hub \<Rightarrow> (jsstring \<Rightarrow> jsstring) \<Rightarrow> jsstring \<Rightarrow> jsstring option \<Rightarrow> jsstring option \<Rightarrow> jsstring option
   \<Rightarrow> hub_call list \<times> response"
where
  "deploy h unicode_lower hf_token html title path =
     (if \<not> truthy html \<or> \<not> truthy title then ([], missing_fields)
      else (case (html, title) of
              (Some hs, Some ts) \<Rightarrow> deploy_checked h unicode_lower hf_token hs ts path
            | _ \<Rightarrow> ([], missing_fields)))"

section \<open>Example inputs\<close>

text \<open>
  A pool of three credentials (the second variable is unset), a gateway that rejects
  the first credential and accepts the others, and a stream that completes the
  document in its third chunk and would go on after it.
\<close>

definition example_env :: env where
  "example_env =
     \<lparr>OPENROUTER_API_KEY_1 = Some (str ''key-a''), OPENROUTER_API_KEY_2 = None,
      OPENROUTER_API_KEY_3 = Some (str ''key-b''), OPENROUTER_API_KEY_4 = Some (str ''key-c'')\<rparr>"

definition example_stream :: stream where
  "example_stream =
     Chunk (Some (str ''<html>hi''))
       (Chunk (Some (str ''</ht''))
         (Chunk (Some (str ''ml>''))
           (Chunk (Some (str ''more'')) Throw)))"

definition example_gateway :: gateway where
  "example_gateway =
     \<lparr>models_list = (\<lambda>c. apiKey c \<noteq> str ''key-a''),
      completions_create = (\<lambda>c m ms. if apiKey c = str ''key-b'' then Some example_stream else None)\<rparr>"

definition dead_gateway :: gateway where
  "dead_gateway = \<lparr>models_list = (\<lambda>c. False), completions_create = (\<lambda>c m ms. None)\<rparr>"

text \<open>A gateway that accepts every credential and answers every completion call alike.\<close>

definition gateway_with :: "stream option \<Rightarrow> gateway" where
  "gateway_with answer = \<lparr>models_list = (\<lambda>c. True), completions_create = (\<lambda>c m ms. answer)\<rparr>"

text \<open>
  A hub that knows one token and accepts every creation and upload, and a stand-in
  for the Unicode case tables.
\<close>

definition example_hub :: hub where
  "example_hub =
     \<lparr>whoAmI = (\<lambda>tok. if tok = str ''hf_abc'' then Inr (str ''alice'')
                       else Inl (str ''Invalid token'')),
      createRepo = (\<lambda>rp tok. None),
      uploadFiles = (\<lambda>rp files tok. None)\<rparr>"

definition example_lower :: "jsstring \<Rightarrow> jsstring" where
  "example_lower s = map ascii_lower s"

definition example_server :: server where
  "example_server = \<lparr>ipAddresses = Map.empty\<rparr>"

text \<open>Five requests from one address, one more than \<open>MAX_REQUESTS_PER_IP\<close>.\<close>

definition five_requests :: "(jsstring \<times> jsstring option \<times> jsstring option \<times> jsstring option) list" where
  "five_requests = replicate 5 (str ''10.0.0.1'', Some (str ''make a page''), None, None)"

section \<open>Failover prober: proofs\<close>

lemma getWorkingClient_loop_step:
  "i < length keys \<Longrightarrow>
   getWorkingClient_loop gw keys i calls =
     (if passes gw (keys ! i) then (calls @ [probe (keys ! i)], Inr (bound_client (keys ! i)))
      else getWorkingClient_loop gw keys (Suc i) (calls @ [probe (keys ! i)]))"
  by (subst getWorkingClient_loop.simps)
     (simp add: createOpenAIClient_def passes_def probe_def)

lemma getWorkingClient_loop_exit:
  "length keys \<le> i \<Longrightarrow> getWorkingClient_loop gw keys i calls = (calls, Inl NoAvailableKey)"
  by (subst getWorkingClient_loop.simps) simp

lemma getWorkingClient_loop_found:
  "List.find (passes gw) (drop i keys) = Some k \<Longrightarrow>
   getWorkingClient_loop gw keys i calls =
     (calls @ map probe (takeWhile (\<lambda>x. \<not> passes gw x) (drop i keys)) @ [probe k],
      Inr (bound_client k))"
proof (induction "length keys - i" arbitrary: i calls)
  case 0
  then show ?case by simp
next
  case (Suc n)
  then have lt: "i < length keys" by simp
  then have d: "drop i keys = keys ! i # drop (Suc i) keys"
    by (simp add: Cons_nth_drop_Suc)
  show ?case
  proof (cases "passes gw (keys ! i)")
    case True
    with Suc.prems d have "k = keys ! i" by simp
    with True lt d show ?thesis
      by (simp add: getWorkingClient_loop_step)
  next
    case False
    with Suc.prems d have f: "List.find (passes gw) (drop (Suc i) keys) = Some k" by simp
    have n: "n = length keys - Suc i" using Suc.hyps(2) by simp
    show ?thesis
      using Suc.hyps(1) [OF n f, of "calls @ [probe (keys ! i)]"] False lt d
      by (simp add: getWorkingClient_loop_step)
  qed
qed

lemma getWorkingClient_loop_none:
  "\<forall>k\<in>set (drop i keys). \<not> passes gw k \<Longrightarrow>
   getWorkingClient_loop gw keys i calls = (calls @ map probe (drop i keys), Inl NoAvailableKey)"
proof (induction "length keys - i" arbitrary: i calls)
  case 0
  then show ?case by (simp add: getWorkingClient_loop_exit)
next
  case (Suc n)
  then have lt: "i < length keys" by simp
  then have d: "drop i keys = keys ! i # drop (Suc i) keys"
    by (simp add: Cons_nth_drop_Suc)
  from Suc.prems d have np: "\<not> passes gw (keys ! i)"
    and rest: "\<forall>k\<in>set (drop (Suc i) keys). \<not> passes gw k" by simp_all
  have n: "n = length keys - Suc i" using Suc.hyps(2) by simp
  show ?case
    using Suc.hyps(1) [OF n rest, of "calls @ [probe (keys ! i)]"] np lt d
    by (simp add: getWorkingClient_loop_step)
qed

lemma find_passes_Some: "\<exists>k\<in>set keys. P k \<Longrightarrow> \<exists>k. List.find P keys = Some k"
  by (induction keys) auto

lemma getWorkingClient_found:
  "List.find (passes gw) keys = Some k \<Longrightarrow>
   getWorkingClient gw keys =
     (map probe (takeWhile (\<lambda>x. \<not> passes gw x) keys) @ [probe k], Inr (bound_client k))"
  using getWorkingClient_loop_found [of gw 0 keys k "[]"] by (simp add: getWorkingClient_def)

lemma getWorkingClient_none:
  "\<forall>k\<in>set keys. \<not> passes gw k \<Longrightarrow>
   getWorkingClient gw keys = (map probe keys, Inl NoAvailableKey)"
  using getWorkingClient_loop_none [of 0 keys gw "[]"] by (simp add: getWorkingClient_def)

section \<open>Streaming relay: proofs\<close>

lemma str_includes_iff: "str_includes s n \<longleftrightarrow> (\<exists>a b. s = a @ n @ b)"
proof (induction s)
  case Nil
  then show ?case by auto
next
  case (Cons c cs)
  show ?case
  proof
    assume "str_includes (c # cs) n"
    then consider "prefix n (c # cs)" | "str_includes cs n" by auto
    then show "\<exists>a b. c # cs = a @ n @ b"
    proof cases
      case 1
      then obtain b where "c # cs = n @ b" by (auto simp: prefix_def)
      then have "c # cs = [] @ n @ b" by simp
      then show ?thesis by blast
    next
      case 2
      with Cons.IH obtain a b where "cs = a @ n @ b" by blast
      then have "c # cs = (c # a) @ n @ b" by simp
      then show ?thesis by blast
    qed
  next
    assume "\<exists>a b. c # cs = a @ n @ b"
    then obtain a b where ab: "c # cs = a @ n @ b" by blast
    show "str_includes (c # cs) n"
    proof (cases a)
      case Nil
      with ab have "prefix n (c # cs)" by (simp add: prefix_def)
      then show ?thesis by simp
    next
      case (Cons x xs)
      with ab have "cs = xs @ n @ b" by simp
      with Cons.IH have "str_includes cs n" by blast
      then show ?thesis by simp
    qed
  qed
qed

lemma str_includes_append: "str_includes a n \<Longrightarrow> str_includes (a @ b) n"
proof -
  assume "str_includes a n"
  then obtain x y where "a = x @ n @ y" by (auto simp: str_includes_iff)
  then have "a @ b = x @ n @ (y @ b)" by simp
  then show ?thesis unfolding str_includes_iff by blast
qed

lemma relay_stops:
  "\<not> str_includes (buf @ concat (map content_of pre)) closing_html \<Longrightarrow>
   str_includes (buf @ concat (map content_of (pre @ [d]))) closing_html \<Longrightarrow>
   relay (chunks_then (pre @ [d]) rest) buf n r =
     (Inr (buf @ concat (map content_of (pre @ [d]))), n + length pre + 1,
      r\<lparr>headersSent := True, written := written r @ map content_of (pre @ [d])\<rparr>)"
proof (induction pre arbitrary: buf n r)
  case Nil
  then show ?case by (simp add: Let_def res_write_def)
next
  case (Cons x xs)
  have "\<not> str_includes (buf @ content_of x) closing_html"
  proof
    assume "str_includes (buf @ content_of x) closing_html"
    then have "str_includes ((buf @ content_of x) @ concat (map content_of xs)) closing_html"
      by (rule str_includes_append)
    with Cons.prems(1) show False by simp
  qed
  moreover have "relay (chunks_then (xs @ [d]) rest) (buf @ content_of x) (Suc n) (res_write (content_of x) r) =
     (Inr ((buf @ content_of x) @ concat (map content_of (xs @ [d]))), Suc n + length xs + 1,
      (res_write (content_of x) r)\<lparr>headersSent := True,
         written := written (res_write (content_of x) r) @ map content_of (xs @ [d])\<rparr>)"
    using Cons.prems by (intro Cons.IH) simp_all
  ultimately show ?case by (simp add: Let_def res_write_def)
qed

lemma relay_throws:
  "\<not> str_includes (buf @ concat (map content_of pre)) closing_html \<Longrightarrow>
   relay (chunks_then pre Throw) buf n r =
     (Inl StreamThrew, n + length pre,
      if pre = [] then r else r\<lparr>headersSent := True, written := written r @ map content_of pre\<rparr>)"
proof (induction pre arbitrary: buf n r)
  case Nil
  then show ?case by simp
next
  case (Cons x xs)
  have "\<not> str_includes (buf @ content_of x) closing_html"
  proof
    assume "str_includes (buf @ content_of x) closing_html"
    then have "str_includes ((buf @ content_of x) @ concat (map content_of xs)) closing_html"
      by (rule str_includes_append)
    with Cons.prems(1) show False by simp
  qed
  moreover have "relay (chunks_then xs Throw) (buf @ content_of x) (Suc n) (res_write (content_of x) r) =
     (Inl StreamThrew, Suc n + length xs,
      if xs = [] then res_write (content_of x) r
      else (res_write (content_of x) r)\<lparr>headersSent := True,
         written := written (res_write (content_of x) r) @ map content_of xs\<rparr>)"
    using Cons.prems by (intro Cons.IH) simp_all
  ultimately show ?case by (simp add: Let_def res_write_def)
qed

section \<open>The generate handler: proofs\<close>

lemma example_keys: "openRouterKeys example_env = [str ''key-a'', str ''key-b'', str ''key-c'']"
  by (simp add: openRouterKeys_def example_env_def filter_Boolean_def List.map_filter_def truthy_def str_def)

lemma ask_ai_streaming:
  assumes "p \<noteq> []"
    and "getWorkingClient gw (openRouterKeys e) = (calls, Inr c)"
    and "completions_create gw c model_id (messages p html pp) = Some s"
    and "relay s [] 0 (stream_headers new_response) = (x, n, r')"
  shows "ask_ai e gw srv ip (Some p) html pp =
           (srv, \<lparr>gateway_calls = calls @ [CompletionsCreate c model_id (messages p html pp)],
                  chunks_read = n,
                  res = (case x of Inl err \<Rightarrow> on_error r' | Inr done \<Rightarrow> res_end r')\<rparr>)"
  using assms by (cases x) (simp_all add: ask_ai_def truthy_def Let_def)

lemma ask_ai_no_client:
  assumes "p \<noteq> []"
    and "getWorkingClient gw (openRouterKeys e) = (calls, Inl err)"
  shows "ask_ai e gw srv ip (Some p) html pp =
           (srv, \<lparr>gateway_calls = calls, chunks_read = 0,
                  res = on_error (stream_headers new_response)\<rparr>)"
  using assms by (simp add: ask_ai_def truthy_def Let_def)

lemma ask_ai_create_rejected:
  assumes "p \<noteq> []"
    and "getWorkingClient gw (openRouterKeys e) = (calls, Inr c)"
    and "completions_create gw c model_id (messages p html pp) = None"
  shows "ask_ai e gw srv ip (Some p) html pp =
           (srv, \<lparr>gateway_calls = calls @ [CompletionsCreate c model_id (messages p html pp)],
                  chunks_read = 0,
                  res = on_error (stream_headers new_response)\<rparr>)"
  using assms by (simp add: ask_ai_def truthy_def Let_def)

lemma headersSent_stream_headers: "headersSent (stream_headers new_response) = False"
  by (simp add: stream_headers_def res_setHeader_def new_response_def)

lemma written_stream_headers: "written (stream_headers new_response) = []"
  by (simp add: stream_headers_def res_setHeader_def new_response_def)

lemma on_error_before_output:
  "on_error (stream_headers new_response) =
     res_send (Failure token_limit_hint) (res_status 500 (stream_headers new_response))"
  by (simp add: on_error_def headersSent_stream_headers)

lemma getWorkingClient_fails_iff:
  "snd (getWorkingClient gw keys) = Inl NoAvailableKey \<longleftrightarrow> (\<forall>k\<in>set keys. \<not> passes gw k)"
proof
  assume f: "snd (getWorkingClient gw keys) = Inl NoAvailableKey"
  show "\<forall>k\<in>set keys. \<not> passes gw k"
  proof (rule ccontr)
    assume "\<not> (\<forall>k\<in>set keys. \<not> passes gw k)"
    then have "\<exists>k\<in>set keys. passes gw k" by simp
    from find_passes_Some [OF this] obtain k where "List.find (passes gw) keys = Some k" ..
    from getWorkingClient_found [OF this] f show False by simp
  qed
next
  assume "\<forall>k\<in>set keys. \<not> passes gw k"
  from getWorkingClient_none [OF this] show "snd (getWorkingClient gw keys) = Inl NoAvailableKey"
    by simp
qed

lemma passes_gateway_with: "passes (gateway_with a) k"
  by (simp add: passes_def gateway_with_def)

lemma find_gateway_with:
  "List.find (passes (gateway_with a)) (openRouterKeys example_env) = Some (str ''key-a'')"
  by (simp add: example_keys passes_gateway_with)

lemma ask_ai_server: "fst (ask_ai e gw srv ip prompt html pp) = srv"
  by (simp add: ask_ai_def Let_def split: option.splits prod.splits sum.splits)

lemma ask_ai_independent:
  "snd (ask_ai e gw srv ip prompt html pp) = snd (ask_ai e gw srv' ip' prompt html pp)"
  by (simp add: ask_ai_def Let_def split: option.splits prod.splits sum.splits)

lemma serve_all_server: "fst (serve_all e gw srv reqs) = srv"
proof (induction reqs arbitrary: srv)
  case Nil
  show ?case by simp
next
  case (Cons rq reqs)
  obtain ip prompt html pp where rq: "rq = (ip, prompt, html, pp)" by (cases rq) auto
  obtain s1 out where a: "ask_ai e gw srv ip prompt html pp = (s1, out)" by (cases "ask_ai e gw srv ip prompt html pp") auto
  then have "s1 = srv" using ask_ai_server [of e gw srv ip prompt html pp] by simp
  moreover obtain s2 outs where b: "serve_all e gw srv reqs = (s2, outs)"
    by (cases "serve_all e gw srv reqs") auto
  moreover from b Cons.IH [of srv] have "s2 = srv" by simp
  ultimately show ?case using a rq by simp
qed

lemma example_request_served:
  "ask_ai example_env example_gateway srv ip (Some (str ''make a page'')) None None =
     (srv, \<lparr>gateway_calls =
              [probe (str ''key-a''), probe (str ''key-b''),
               CompletionsCreate (bound_client (str ''key-b'')) model_id
                 (messages (str ''make a page'') None None)],
            chunks_read = 3,
            res = \<lparr>statusCode = 200,
                   headers = [(''Content-Type'', ''text/plain''), (''Cache-Control'', ''no-cache''),
                              (''Connection'', ''keep-alive'')],
                   headersSent = True, written = [str ''<html>hi'', str ''</ht'', str ''ml>''],
                   sent = None, ended = True\<rparr>\<rparr>)"
proof -
  have h1: "str ''make a page'' \<noteq> []" by (simp add: str_def)
  have h2: "List.find (passes example_gateway) (openRouterKeys example_env) = Some (str ''key-b'')"
    by (simp add: example_keys passes_def example_gateway_def bound_client_def str_def)
  have h3: "completions_create example_gateway (bound_client (str ''key-b'')) model_id
       (messages (str ''make a page'') None None) =
     Some (chunks_then ([Some (str ''<html>hi''), Some (str ''</ht'')] @ [Some (str ''ml>'')])
            (Chunk (Some (str ''more'')) Throw))"
    by (simp add: example_gateway_def bound_client_def example_stream_def)
  have h4: "\<not> str_includes ([] @ concat (map content_of [Some (str ''<html>hi''), Some (str ''</ht'')])) closing_html"
    by (simp add: content_of_def closing_html_def str_def)
  have h5: "str_includes ([] @ concat (map content_of ([Some (str ''<html>hi''), Some (str ''</ht'')] @ [Some (str ''ml>'')])))
     closing_html"
    by (simp add: content_of_def closing_html_def str_def)
  note r = relay_stops [OF h4 h5, of "Chunk (Some (str ''more'')) Throw" 0 "stream_headers new_response"]
  from ask_ai_streaming [OF h1 getWorkingClient_found [OF h2] h3 r, of srv ip]
  show ?thesis
    by (simp add: example_keys passes_def example_gateway_def bound_client_def str_def
        content_of_def res_end_def stream_headers_def res_setHeader_def new_response_def)
qed

section \<open>The publish handler: proofs\<close>

lemma split_not_Nil: "split sep s \<noteq> []"
  by (induction s) (auto split: list.splits)

lemma split_Cons_other:
  "c \<noteq> sep \<Longrightarrow> split sep (c # cs) = (c # hd (split sep cs)) # tl (split sep cs)"
  using split_not_Nil [of sep cs] by (cases "split sep cs") simp_all

lemma alnum_not_dash: "alnum c \<Longrightarrow> c \<noteq> dash"
  by (auto simp: alnum_def dash_def)

lemma filter_split_in_run:
  "filter_nonempty (split dash (replace_runs True s)) =
   filter_nonempty (split dash (replace_runs False s))"
proof (cases s)
  case Nil
  then show ?thesis by simp
next
  case (Cons c cs)
  then show ?thesis by (simp add: filter_nonempty_def)
qed

lemma filter_split_words:
  "filter_nonempty ((cur @ hd (split dash (replace_runs False s))) #
                    tl (split dash (replace_runs False s))) = words_from cur s"
proof (induction s arbitrary: cur)
  case Nil
  show ?case by (simp add: filter_nonempty_def)
next
  case (Cons c cs)
  show ?case
  proof (cases "alnum c")
    case True
    then have "c \<noteq> dash" by (rule alnum_not_dash)
    then have "split dash (c # replace_runs False cs) =
        (c # hd (split dash (replace_runs False cs))) # tl (split dash (replace_runs False cs))"
      by (rule split_Cons_other)
    with True Cons.IH [of "cur @ [c]"] show ?thesis by simp
  next
    case False
    have ne: "split dash (replace_runs False cs) \<noteq> []" by (rule split_not_Nil)
    have "filter_nonempty (split dash (replace_runs True cs)) =
          filter_nonempty (([] @ hd (split dash (replace_runs False cs))) #
                           tl (split dash (replace_runs False cs)))"
      using ne by (simp add: filter_split_in_run)
    also have "\<dots> = words_from [] cs" by (rule Cons.IH)
    finally have "filter_nonempty (split dash (replace_runs True cs)) = words_from [] cs" .
    with False show ?thesis by (simp add: filter_nonempty_def)
  qed
qed

lemma pipeline_words:
  "filter_nonempty (split dash (replace_runs False s)) = alnum_words s"
proof -
  have "split dash (replace_runs False s) \<noteq> []" by (rule split_not_Nil)
  then have "split dash (replace_runs False s) =
      ([] @ hd (split dash (replace_runs False s))) # tl (split dash (replace_runs False s))"
    by simp
  then have "filter_nonempty (split dash (replace_runs False s)) =
      filter_nonempty (([] @ hd (split dash (replace_runs False s))) #
                       tl (split dash (replace_runs False s)))"
    by simp
  then show ?thesis by (simp only: filter_split_words alnum_words_def)
qed

lemma newTitle_spec: "newTitle ul title = spec_slug ul title"
  by (simp add: newTitle_def spec_slug_def pipeline_words)

lemma slug_example: "newTitle ul (str ''My Cool App!!'') = str ''my-cool-app''"
  by (simp add: newTitle_def toLowerCase_def str_def ascii_lower_def alnum_def dash_def
      filter_nonempty_def)

text \<open>The words of a string are non-empty, alphanumeric, and together its alphanumeric code units.\<close>

lemma words_from_concat: "concat (words_from cur s) = cur @ filter alnum s"
  by (induction s arbitrary: cur) auto

lemma words_from_alnum:
  "\<forall>c\<in>set cur. alnum c \<Longrightarrow> w \<in> set (words_from cur s) \<Longrightarrow> w \<noteq> [] \<and> (\<forall>c\<in>set w. alnum c)"
proof (induction s arbitrary: cur)
  case Nil
  then show ?case by (auto split: if_splits)
next
  case (Cons c cs)
  show ?case
  proof (cases "alnum c")
    case True
    with Cons.prems have "\<forall>x\<in>set (cur @ [c]). alnum x" and "w \<in> set (words_from (cur @ [c]) cs)"
      by auto
    then show ?thesis by (rule Cons.IH)
  next
    case False
    with Cons.prems have "w = cur \<and> cur \<noteq> [] \<or> w \<in> set (words_from [] cs)"
      by (auto split: if_splits)
    then show ?thesis
    proof
      assume "w = cur \<and> cur \<noteq> []"
      with Cons.prems(1) show ?thesis by simp
    next
      assume "w \<in> set (words_from [] cs)"
      then show ?thesis using Cons.IH [of "[]"] by simp
    qed
  qed
qed

lemma alnum_words_sound:
  "concat (alnum_words s) = filter alnum s \<and>
   (\<forall>w\<in>set (alnum_words s). w \<noteq> [] \<and> (\<forall>c\<in>set w. alnum c))"
  using words_from_concat [of "[]" s] words_from_alnum [of "[]" _ s]
  by (auto simp: alnum_words_def)

text \<open>The replacement string has no \<open>$\<close>, so \<open>replace\<close> inserts it literally.\<close>

lemma replacement_no_dollar: "0x24 \<notin> set (attribution @ closing_body)"
  by (simp add: attribution_def closing_body_def str_def)

lemma prefix_append_short: "prefix p (a @ b) \<Longrightarrow> length p \<le> length a \<Longrightarrow> prefix p a"
  by (metis prefix_length_prefix prefixI prefix_order.order_refl append_prefixD prefix_def)

lemma replace_first_at:
  "pat \<noteq> [] \<Longrightarrow> \<not> str_includes (pre @ butlast pat) pat \<Longrightarrow>
   replace_first pat r (pre @ pat @ post) = pre @ r @ post"
proof (induction pre)
  case Nil
  then obtain c cs where "pat = c # cs" by (cases pat) auto
  then show ?case by simp
next
  case (Cons x xs)
  from Cons.prems(2) have np: "\<not> prefix pat (x # xs @ butlast pat)"
    and ni: "\<not> str_includes (xs @ butlast pat) pat" by simp_all
  have "\<not> prefix pat (x # xs @ pat @ post)"
  proof
    assume a: "prefix pat (x # xs @ pat @ post)"
    have e: "x # xs @ pat @ post = (x # xs @ butlast pat) @ ([last pat] @ post)"
      using Cons.prems(1) by simp
    have "length pat \<le> length (x # xs @ butlast pat)" by simp
    with a e have "prefix pat (x # xs @ butlast pat)"
      using prefix_append_short by metis
    with np show False ..
  qed
  with Cons.IH [OF Cons.prems(1) ni] show ?case by simp
qed

lemma replace_first_absent:
  "\<not> str_includes s pat \<Longrightarrow> replace_first pat r s = s"
  by (induction s) auto

text \<open>The encoding of a blob.\<close>

lemma lone_ascii: "c < 0x80 \<Longrightarrow> lone c = unat c \<and> unat c < 0x80"
  by (auto simp: lone_def high_surrogate_def low_surrogate_def word_less_nat_alt word_le_nat_alt)

lemma not_high_ascii: "c < 0x80 \<Longrightarrow> \<not> high_surrogate c"
  by (auto simp: high_surrogate_def word_less_nat_alt word_le_nat_alt)

lemma scalar_values_ascii:
  "\<forall>c\<in>set s. c < 0x80 \<Longrightarrow> scalar_values s = map unat s"
proof (induction s rule: scalar_values.induct)
  case 1
  show ?case by simp
next
  case (2 c)
  then show ?case by (simp add: lone_ascii)
next
  case (3 c d cs)
  then have "c < 0x80" by simp
  with 3 show ?case by (simp add: lone_ascii not_high_ascii)
qed

lemma utf8_encode_ascii:
  "\<forall>c\<in>set s. c < 0x80 \<Longrightarrow> utf8_encode s = map byte_of s"
proof -
  assume a: "\<forall>c\<in>set s. c < 0x80"
  have "concat (map utf8 (map unat s)) = map byte_of s"
    using a by (induction s) (auto simp: utf8_def byte_of_def lone_ascii)
  with a show ?thesis by (simp add: utf8_encode_def scalar_values_ascii)
qed

lemma utf16_lone: "\<not> high_surrogate c \<Longrightarrow> \<not> low_surrogate c \<Longrightarrow> utf16 (lone c) = [c]"
proof -
  have "unat c < 0x10000" using unsigned_less [of c, where ?'a = nat] by simp
  then show "\<not> high_surrogate c \<Longrightarrow> \<not> low_surrogate c \<Longrightarrow> utf16 (lone c) = [c]"
    by (simp add: utf16_def lone_def)
qed

lemma utf16_pair:
  assumes "high_surrogate c" and "low_surrogate d"
  shows "utf16 (0x10000 + (unat c - 0xD800) * 0x400 + (unat d - 0xDC00)) = [c, d]"
proof -
  from assms have c: "0xD800 \<le> unat c" and d: "0xDC00 \<le> unat d" and d': "unat d \<le> 0xDFFF"
    by (simp_all add: high_surrogate_def low_surrogate_def word_le_nat_alt)
  from d d' have lt: "unat d - 0xDC00 < 0x400" by simp
  have dv: "((unat c - 0xD800) * 0x400 + (unat d - 0xDC00)) div 0x400 = unat c - 0xD800"
    using lt by simp
  have md: "((unat c - 0xD800) * 0x400 + (unat d - 0xDC00)) mod 0x400 = unat d - 0xDC00"
    using lt by simp
  have e: "0x10000 + (unat c - 0xD800) * 0x400 + (unat d - 0xDC00) - 0x10000 =
           (unat c - 0xD800) * 0x400 + (unat d - 0xDC00)" by simp
  have hc: "(of_nat (0xD800 + (unat c - 0xD800)) :: jschar) = c" using c by simp
  have hd: "(of_nat (0xDC00 + (unat d - 0xDC00)) :: jschar) = d" using d by simp
  show ?thesis
    unfolding utf16_def e dv md using hc hd by simp
qed

lemma utf16_roundtrip: "well_formed s \<Longrightarrow> utf16_encode (scalar_values s) = s"
proof (induction s rule: scalar_values.induct)
  case 1
  show ?case by (simp add: utf16_encode_def)
next
  case (2 c)
  then show ?case by (simp add: utf16_encode_def utf16_lone)
next
  case (3 c d cs)
  show ?case
  proof (cases "high_surrogate c")
    case True
    with "3.prems" have l: "low_surrogate d" and w: "well_formed cs" by simp_all
    from "3.IH"(1) True l w have "utf16_encode (scalar_values cs) = cs" by simp
    with True l utf16_pair [OF True l] show ?thesis
      by (simp add: utf16_encode_def)
  next
    case False
    with "3.prems" have l: "\<not> low_surrogate c" and w: "well_formed (d # cs)" by simp_all
    from "3.IH"(2) False w have "utf16_encode (scalar_values (d # cs)) = d # cs" by simp
    with False l utf16_lone [OF False l] show ?thesis
      by (simp add: utf16_encode_def)
  qed
qed

lemma lone_surrogate_bytes:
  "utf8_encode [0x61, 0xD800, 0x62] = [0x61, 0xEF, 0xBF, 0xBD, 0x62] \<and>
   utf8_encode [0x61, 0xFFFD, 0x62] = [0x61, 0xEF, 0xBF, 0xBD, 0x62]"
  by (simp add: utf8_encode_def utf8_def lone_def high_surrogate_def low_surrogate_def)

lemma attribution_ascii: "\<forall>c\<in>set attribution. c < 0x80"
  by (simp add: attribution_def str_def)

lemma str_includes_length: "str_includes s n \<Longrightarrow> length n \<le> length s"
  by (auto simp: str_includes_iff)

lemma readme_of_truthy: "truthy (Some (readme_of t))"
  by (simp add: truthy_def readme_of_def str_def)

lemma fst_upload:
  "fst (upload h tok calls rp file readme) =
     calls @ [UploadFiles rp ([file] @ spread_if readme
        (\<lambda>rd. \<lparr>blob_name = str ''README.md'', blob_type = str ''text/markdown'',
                blob_content = utf8_encode rd\<rparr>)) tok]"
  by (simp add: upload_def Let_def split: option.splits)

lemma snd_upload:
  "snd (upload h tok calls rp file readme) =
     (case uploadFiles h rp ([file] @ spread_if readme
        (\<lambda>rd. \<lparr>blob_name = str ''README.md'', blob_type = str ''text/markdown'',
                blob_content = utf8_encode rd\<rparr>)) tok of
        Some msg \<Rightarrow> publish_failure msg
      | None \<Rightarrow> res_send (Published (repo_name rp)) (res_status 200 new_response))"
  by (simp add: upload_def Let_def split: option.splits)

lemma deploy_missing:
  "\<not> truthy html \<or> \<not> truthy title \<Longrightarrow> deploy h ul tok html title path = ([], missing_fields)"
  by (auto simp: deploy_def)

lemma deploy_present:
  "hs \<noteq> [] \<Longrightarrow> ts \<noteq> [] \<Longrightarrow>
   deploy h ul tok (Some hs) (Some ts) path = deploy_checked h ul tok hs ts path"
  by (simp add: deploy_def truthy_def)

lemma deploy_checked_create:
  assumes "\<not> truthy path"
    and "whoAmI h tok = Inr ns"
    and "createRepo h \<lparr>repo_type = str ''space'', repo_name = ns @ str ''/'' @ newTitle ul ts\<rparr> tok = None"
  shows "deploy_checked h ul tok hs ts path =
     upload h tok
       [WhoAmI tok,
        CreateRepo \<lparr>repo_type = str ''space'', repo_name = ns @ str ''/'' @ newTitle ul ts\<rparr> tok]
       \<lparr>repo_type = str ''space'', repo_name = ns @ str ''/'' @ newTitle ul ts\<rparr>
       \<lparr>blob_name = str ''index.html'', blob_type = str ''text/html'',
        blob_content = utf8_encode (replace_first closing_body (attribution @ closing_body) hs)\<rparr>
       (Some (readme_of (newTitle ul ts)))"
  using assms by (simp add: deploy_checked_def Let_def)

lemma deploy_checked_overwrite:
  assumes "p \<noteq> []"
  shows "deploy_checked h ul tok hs ts (Some p) =
     upload h tok [] \<lparr>repo_type = str ''space'', repo_name = p\<rparr>
       \<lparr>blob_name = str ''index.html'', blob_type = str ''text/html'',
        blob_content = utf8_encode hs\<rparr> None"
  using assms by (simp add: deploy_checked_def Let_def truthy_def)

lemma deploy_empty_path:
  "deploy h ul tok html title (Some []) = deploy h ul tok html title None"
  by (simp add: deploy_def deploy_checked_def truthy_def Let_def split: option.splits)

lemma statusCode_upload: "statusCode (snd (upload h tok calls rp file readme)) \<noteq> 400"
  by (simp add: upload_def Let_def publish_failure_def res_send_def res_status_def new_response_def
      split: option.splits)

lemma statusCode_deploy_checked: "statusCode (snd (deploy_checked h ul tok hs ts path)) \<noteq> 400"
  by (simp add: deploy_checked_def Let_def statusCode_upload publish_failure_def res_send_def
      res_status_def new_response_def split: sum.splits option.splits)

lemma example_whoAmI: "whoAmI example_hub (str ''hf_abc'') = Inr (str ''alice'')"
  by (simp add: example_hub_def)

lemma example_createRepo: "createRepo example_hub rp tok = None"
  by (simp add: example_hub_def)

lemma example_uploadFiles: "uploadFiles example_hub rp files tok = None"
  by (simp add: example_hub_def)

lemma alice_slug: "str ''alice'' @ str ''/'' @ str ''my-cool-app'' = str ''alice/my-cool-app''"
  by (simp add: str_def)

section \<open>The claims about the failover prober\<close>

text \<open>
  C1. If some credential of the pool passes the probe, \<open>getWorkingClient\<close> returns the
  client bound to the first credential, in pool order, that passes; the gateway calls
  it made are the probes of the credentials before that one (all of which failed)
  followed by the probe of that one, and nothing after it.
\<close>

theorem getWorkingClient_first_passing:
  assumes "\<exists>k\<in>set keys. passes gw k"
  shows "\<exists>k. List.find (passes gw) keys = Some k \<and>
             getWorkingClient gw keys =
               (map probe (takeWhile (\<lambda>x. \<not> passes gw x) keys) @ [probe k],
                Inr (bound_client k))"
proof -
  from find_passes_Some [OF assms] obtain k where f: "List.find (passes gw) keys = Some k" ..
  from getWorkingClient_found [OF f] f show ?thesis by simp
qed

theorem getWorkingClient_first_passing_witness:
  "(\<exists>k\<in>set (openRouterKeys example_env). passes example_gateway k) \<and>
   getWorkingClient example_gateway (openRouterKeys example_env) =
     ([probe (str ''key-a''), probe (str ''key-b'')], Inr (bound_client (str ''key-b'')))"
proof -
  have k: "openRouterKeys example_env = [str ''key-a'', str ''key-b'', str ''key-c'']"
    by (simp add: openRouterKeys_def example_env_def filter_Boolean_def List.map_filter_def
        truthy_def str_def)
  have h: "\<exists>k\<in>set (openRouterKeys example_env). passes example_gateway k"
    by (simp add: k passes_def example_gateway_def bound_client_def str_def)
  from getWorkingClient_first_passing [OF h] h show ?thesis
    by (simp add: k passes_def example_gateway_def bound_client_def str_def)
qed

section \<open>The claims about the generate route\<close>

text \<open>
  C3. The message list is the system instruction, then \<open>previousPrompt\<close> as a user
  turn if present, then the current \<open>html\<close> as an assistant turn if present, then
  the prompt as a user turn: two entries when both optional fields are absent, four
  entries in this order when both are present. The assistant turn carries the html
  inside the sentence \<open>The current code is: ... .\<close>, and a field is present when it
  is a non-empty string: an empty one is left out like an absent one.
\<close>

theorem messages_order:
  "messages p None None = [\<lparr>role = System, content = system_instruction\<rparr>, \<lparr>role = User, content = p\<rparr>] \<and>
   (h \<noteq> [] \<and> pp \<noteq> [] \<longrightarrow>
      messages p (Some h) (Some pp) =
        [\<lparr>role = System, content = system_instruction\<rparr>,
         \<lparr>role = User, content = pp\<rparr>,
         \<lparr>role = Assistant, content = str ''The current code is: '' @ h @ str ''.''\<rparr>,
         \<lparr>role = User, content = p\<rparr>]) \<and>
   (pp \<noteq> [] \<longrightarrow>
      messages p None (Some pp) =
        [\<lparr>role = System, content = system_instruction\<rparr>,
         \<lparr>role = User, content = pp\<rparr>,
         \<lparr>role = User, content = p\<rparr>]) \<and>
   (h \<noteq> [] \<longrightarrow>
      messages p (Some h) None =
        [\<lparr>role = System, content = system_instruction\<rparr>,
         \<lparr>role = Assistant, content = str ''The current code is: '' @ h @ str ''.''\<rparr>,
         \<lparr>role = User, content = p\<rparr>]) \<and>
   messages p (Some []) previousPrompt = messages p None previousPrompt \<and>
   messages p html (Some []) = messages p html None"
  by (simp add: messages_def spread_if_def truthy_def)

theorem messages_order_witness:
  "str ''<h1>Hi</h1>'' \<noteq> [] \<and> str ''a page'' \<noteq> [] \<and>
   messages (str ''make it blue'') (Some (str ''<h1>Hi</h1>'')) (Some (str ''a page'')) =
     [\<lparr>role = System, content = system_instruction\<rparr>,
      \<lparr>role = User, content = str ''a page''\<rparr>,
      \<lparr>role = Assistant, content = str ''The current code is: <h1>Hi</h1>.''\<rparr>,
      \<lparr>role = User, content = str ''make it blue''\<rparr>] \<and>
   messages (str ''make it blue'') None (Some (str ''a page'')) =
     [\<lparr>role = System, content = system_instruction\<rparr>,
      \<lparr>role = User, content = str ''a page''\<rparr>,
      \<lparr>role = User, content = str ''make it blue''\<rparr>] \<and>
   messages (str ''make it blue'') (Some (str ''<h1>Hi</h1>'')) None =
     [\<lparr>role = System, content = system_instruction\<rparr>,
      \<lparr>role = Assistant, content = str ''The current code is: <h1>Hi</h1>.''\<rparr>,
      \<lparr>role = User, content = str ''make it blue''\<rparr>] \<and>
   messages (str ''make it blue'') None None =
     [\<lparr>role = System, content = system_instruction\<rparr>,
      \<lparr>role = User, content = str ''make it blue''\<rparr>]"
  using messages_order [of "str ''make it blue''" "str ''<h1>Hi</h1>''" "str ''a page''" None None]
  by (simp add: str_def)

text \<open>
  C2. When the buffer first includes \<open></html>\<close> after the chunk \<open>d\<close> is appended
  (it did not after the chunks \<open>pre\<close> before it), the relay has written exactly the
  chunks \<open>pre\<close> and \<open>d\<close>, has taken no further chunk from the stream whatever the
  stream would have produced next, and has ended the response.
\<close>

theorem relay_stops_at_closing_tag:
  assumes "p \<noteq> []"
    and "List.find (passes gw) (openRouterKeys e) = Some k"
    and "completions_create gw (bound_client k) model_id (messages p html pp) =
           Some (chunks_then (pre @ [d]) rest)"
    and "\<not> str_includes (concat (map content_of pre)) closing_html"
    and "str_includes (concat (map content_of (pre @ [d]))) closing_html"
  shows "snd (ask_ai e gw srv ip (Some p) html pp) =
           \<lparr>gateway_calls =
              map probe (takeWhile (\<lambda>x. \<not> passes gw x) (openRouterKeys e)) @ [probe k] @
              [CompletionsCreate (bound_client k) model_id (messages p html pp)],
            chunks_read = length pre + 1,
            res = (stream_headers new_response)
                    \<lparr>headersSent := True, written := map content_of (pre @ [d]), ended := True\<rparr>\<rparr>"
proof -
  have r: "relay (chunks_then (pre @ [d]) rest) [] 0 (stream_headers new_response) =
     (Inr ([] @ concat (map content_of (pre @ [d]))), 0 + length pre + 1,
      (stream_headers new_response)\<lparr>headersSent := True,
         written := written (stream_headers new_response) @ map content_of (pre @ [d])\<rparr>)"
    using assms(4,5) by (intro relay_stops) simp_all
  show ?thesis
    using ask_ai_streaming [OF assms(1) getWorkingClient_found [OF assms(2)] assms(3) r]
    by (simp add: res_end_def written_stream_headers)
qed

theorem relay_stops_at_closing_tag_witness:
  "str ''make a page'' \<noteq> [] \<and>
   List.find (passes example_gateway) (openRouterKeys example_env) = Some (str ''key-b'') \<and>
   completions_create example_gateway (bound_client (str ''key-b'')) model_id
       (messages (str ''make a page'') None None) =
     Some (chunks_then ([Some (str ''<html>hi''), Some (str ''</ht'')] @ [Some (str ''ml>'')])
            (Chunk (Some (str ''more'')) Throw)) \<and>
   \<not> str_includes (concat (map content_of [Some (str ''<html>hi''), Some (str ''</ht'')])) closing_html \<and>
   str_includes (concat (map content_of ([Some (str ''<html>hi''), Some (str ''</ht'')] @ [Some (str ''ml>'')])))
     closing_html \<and>
   chunks_read (snd (ask_ai example_env example_gateway example_server (str ''10.0.0.1'')
       (Some (str ''make a page'')) None None)) = 3 \<and>
   written (res (snd (ask_ai example_env example_gateway example_server (str ''10.0.0.1'')
       (Some (str ''make a page'')) None None))) = [str ''<html>hi'', str ''</ht'', str ''ml>''] \<and>
   ended (res (snd (ask_ai example_env example_gateway example_server (str ''10.0.0.1'')
       (Some (str ''make a page'')) None None)))"
proof -
  have h1: "str ''make a page'' \<noteq> []" by (simp add: str_def)
  have h2: "List.find (passes example_gateway) (openRouterKeys example_env) = Some (str ''key-b'')"
    by (simp add: example_keys passes_def example_gateway_def bound_client_def str_def)
  have h3: "completions_create example_gateway (bound_client (str ''key-b'')) model_id
       (messages (str ''make a page'') None None) =
     Some (chunks_then ([Some (str ''<html>hi''), Some (str ''</ht'')] @ [Some (str ''ml>'')])
            (Chunk (Some (str ''more'')) Throw))"
    by (simp add: example_gateway_def bound_client_def example_stream_def)
  have h4: "\<not> str_includes (concat (map content_of [Some (str ''<html>hi''), Some (str ''</ht'')])) closing_html"
    by (simp add: content_of_def closing_html_def str_def)
  have h5: "str_includes (concat (map content_of ([Some (str ''<html>hi''), Some (str ''</ht'')] @ [Some (str ''ml>'')])))
     closing_html"
    by (simp add: content_of_def closing_html_def str_def)
  from relay_stops_at_closing_tag [OF h1 h2 h3 h4 h5, of example_server "str ''10.0.0.1''"]
    h1 h2 h3 h4 h5
  show ?thesis by (simp add: content_of_def)
qed

text \<open>
  C6. \<open>getWorkingClient\<close> fails with the error \<open>No available OpenRouter API key\<close>
  exactly when every credential of the pool fails its probe, which includes the empty
  pool; the generation request then ends as a failure with status 500 after one probe
  of each credential, in order, and no other call to the gateway.
\<close>

theorem no_available_credential:
  "(snd (getWorkingClient gw keys) = Inl NoAvailableKey \<longleftrightarrow> (\<forall>k\<in>set keys. \<not> passes gw k)) \<and>
   snd (getWorkingClient gw []) = Inl NoAvailableKey \<and>
   (p \<noteq> [] \<and> (\<forall>k\<in>set (openRouterKeys e). \<not> passes gw k) \<longrightarrow>
      snd (ask_ai e gw srv ip (Some p) html pp) =
        \<lparr>gateway_calls = map probe (openRouterKeys e), chunks_read = 0,
         res = res_send (Failure token_limit_hint) (res_status 500 (stream_headers new_response))\<rparr>)"
proof (intro conjI impI)
  show "snd (getWorkingClient gw keys) = Inl NoAvailableKey \<longleftrightarrow> (\<forall>k\<in>set keys. \<not> passes gw k)"
    by (rule getWorkingClient_fails_iff)
  show "snd (getWorkingClient gw []) = Inl NoAvailableKey"
    by (simp add: getWorkingClient_fails_iff)
next
  assume a: "p \<noteq> [] \<and> (\<forall>k\<in>set (openRouterKeys e). \<not> passes gw k)"
  then have p: "p \<noteq> []" and n: "\<forall>k\<in>set (openRouterKeys e). \<not> passes gw k" by simp_all
  from ask_ai_no_client [OF p getWorkingClient_none [OF n]]
  show "snd (ask_ai e gw srv ip (Some p) html pp) =
        \<lparr>gateway_calls = map probe (openRouterKeys e), chunks_read = 0,
         res = res_send (Failure token_limit_hint) (res_status 500 (stream_headers new_response))\<rparr>"
    by (simp add: on_error_before_output)
qed

theorem no_available_credential_witness:
  "str ''make a page'' \<noteq> [] \<and>
   \<not> passes dead_gateway (str ''key-a'') \<and> \<not> passes dead_gateway (str ''key-b'') \<and>
   \<not> passes dead_gateway (str ''key-c'') \<and>
   snd (getWorkingClient dead_gateway (openRouterKeys example_env)) = Inl NoAvailableKey \<and>
   snd (ask_ai example_env dead_gateway example_server (str ''10.0.0.1'')
          (Some (str ''make a page'')) None None) =
     \<lparr>gateway_calls = [probe (str ''key-a''), probe (str ''key-b''), probe (str ''key-c'')],
      chunks_read = 0,
      res = \<lparr>statusCode = 500,
             headers = [(''Content-Type'', ''text/plain''), (''Cache-Control'', ''no-cache''),
                        (''Connection'', ''keep-alive'')],
             headersSent = True, written = [], sent = Some (Failure token_limit_hint),
             ended = True\<rparr>\<rparr>"
proof -
  have h1: "str ''make a page'' \<noteq> []" by (simp add: str_def)
  have h2: "\<forall>k\<in>set (openRouterKeys example_env). \<not> passes dead_gateway k"
    by (simp add: passes_def dead_gateway_def)
  from no_available_credential [of dead_gateway "openRouterKeys example_env" "str ''make a page''"
      example_env example_server "str ''10.0.0.1''" None None] h1 h2
  show ?thesis
    by (simp add: example_keys passes_def dead_gateway_def res_send_def res_status_def
        stream_headers_def res_setHeader_def new_response_def)
qed

text \<open>
  C7, as stated, fails: a chunk without content is written as the empty string,
  which flushes the header; when the stream throws after it, the caller gets status
  200 with an empty body and no structured failure, although no output was sent.
\<close>

theorem upstream_failure_reporting_counterexample:
  "res (snd (ask_ai example_env (gateway_with (Some (Chunk None Throw))) example_server
          (str ''10.0.0.1'') (Some (str ''make a page'')) None None)) =
     \<lparr>statusCode = 200,
      headers = [(''Content-Type'', ''text/plain''), (''Cache-Control'', ''no-cache''),
                 (''Connection'', ''keep-alive'')],
      headersSent = True, written = [[]], sent = None, ended = True\<rparr> \<and>
   concat (written (res (snd (ask_ai example_env (gateway_with (Some (Chunk None Throw)))
          example_server (str ''10.0.0.1'') (Some (str ''make a page'')) None None)))) = []"
proof -
  have h1: "str ''make a page'' \<noteq> []" by (simp add: str_def)
  have h3: "completions_create (gateway_with (Some (Chunk None Throw))) (bound_client (str ''key-a''))
      model_id (messages (str ''make a page'') None None) = Some (chunks_then [None] Throw)"
    by (simp add: gateway_with_def)
  have h4: "\<not> str_includes ([] @ concat (map content_of [None])) closing_html"
    by (simp add: content_of_def closing_html_def str_def)
  note r = relay_throws [OF h4, of 0 "stream_headers new_response"]
  from ask_ai_streaming [OF h1 getWorkingClient_found [OF find_gateway_with] h3 r,
      of example_server "str ''10.0.0.1''"]
  have o: "res (snd (ask_ai example_env (gateway_with (Some (Chunk None Throw))) example_server
          (str ''10.0.0.1'') (Some (str ''make a page'')) None None)) =
     \<lparr>statusCode = 200,
      headers = [(''Content-Type'', ''text/plain''), (''Cache-Control'', ''no-cache''),
                 (''Connection'', ''keep-alive'')],
      headersSent = True, written = [[]], sent = None, ended = True\<rparr>"
    by (simp add: content_of_def on_error_def res_end_def stream_headers_def res_setHeader_def
        new_response_def)
  then show ?thesis by simp
qed

text \<open>
  C7, as the code has it. The handler decides on \<open>res.headersSent\<close>. A failure
  before the first \<open>res.write\<close> (no credential passes, the completion call is
  rejected, or the stream throws before its first chunk) is answered with the
  structured failure that carries the token-limit hint, the same for each of them.
  When the stream throws after a chunk has been written, even one without content,
  the response is ended with the chunks written so far and no structured failure is
  sent.
\<close>

theorem upstream_failure_reporting:
  "(p \<noteq> [] \<and> (\<forall>k\<in>set (openRouterKeys e). \<not> passes gw k) \<longrightarrow>
      res (snd (ask_ai e gw srv ip (Some p) html pp)) =
        res_send (Failure token_limit_hint) (res_status 500 (stream_headers new_response))) \<and>
   (p \<noteq> [] \<and> List.find (passes gw) (openRouterKeys e) = Some k \<and>
    completions_create gw (bound_client k) model_id (messages p html pp) = None \<longrightarrow>
      res (snd (ask_ai e gw srv ip (Some p) html pp)) =
        res_send (Failure token_limit_hint) (res_status 500 (stream_headers new_response))) \<and>
   (p \<noteq> [] \<and> List.find (passes gw) (openRouterKeys e) = Some k \<and>
    completions_create gw (bound_client k) model_id (messages p html pp) = Some Throw \<longrightarrow>
      res (snd (ask_ai e gw srv ip (Some p) html pp)) =
        res_send (Failure token_limit_hint) (res_status 500 (stream_headers new_response))) \<and>
   (p \<noteq> [] \<and> List.find (passes gw) (openRouterKeys e) = Some k \<and>
    completions_create gw (bound_client k) model_id (messages p html pp) =
      Some (chunks_then (d # ds) Throw) \<and>
    \<not> str_includes (concat (map content_of (d # ds))) closing_html \<longrightarrow>
      res (snd (ask_ai e gw srv ip (Some p) html pp)) =
        (stream_headers new_response)
          \<lparr>headersSent := True, written := map content_of (d # ds), ended := True\<rparr> \<and>
      sent (res (snd (ask_ai e gw srv ip (Some p) html pp))) = None \<and>
      statusCode (res (snd (ask_ai e gw srv ip (Some p) html pp))) = 200)"
proof (intro conjI impI)
  assume a: "p \<noteq> [] \<and> (\<forall>k\<in>set (openRouterKeys e). \<not> passes gw k)"
  then have p: "p \<noteq> []" and n: "\<forall>k\<in>set (openRouterKeys e). \<not> passes gw k" by simp_all
  from ask_ai_no_client [OF p getWorkingClient_none [OF n]]
  show "res (snd (ask_ai e gw srv ip (Some p) html pp)) =
        res_send (Failure token_limit_hint) (res_status 500 (stream_headers new_response))"
    by (simp add: on_error_before_output)
next
  assume a: "p \<noteq> [] \<and> List.find (passes gw) (openRouterKeys e) = Some k \<and>
    completions_create gw (bound_client k) model_id (messages p html pp) = None"
  then have p: "p \<noteq> []" and f: "List.find (passes gw) (openRouterKeys e) = Some k"
    and c: "completions_create gw (bound_client k) model_id (messages p html pp) = None"
    by simp_all
  from ask_ai_create_rejected [OF p getWorkingClient_found [OF f] c]
  show "res (snd (ask_ai e gw srv ip (Some p) html pp)) =
        res_send (Failure token_limit_hint) (res_status 500 (stream_headers new_response))"
    by (simp add: on_error_before_output)
next
  assume a: "p \<noteq> [] \<and> List.find (passes gw) (openRouterKeys e) = Some k \<and>
    completions_create gw (bound_client k) model_id (messages p html pp) = Some Throw"
  then have p: "p \<noteq> []" and f: "List.find (passes gw) (openRouterKeys e) = Some k"
    and c: "completions_create gw (bound_client k) model_id (messages p html pp) = Some Throw"
    by simp_all
  have r: "relay Throw [] 0 (stream_headers new_response) =
             (Inl StreamThrew, 0, stream_headers new_response)" by simp
  from ask_ai_streaming [OF p getWorkingClient_found [OF f] c r]
  show "res (snd (ask_ai e gw srv ip (Some p) html pp)) =
        res_send (Failure token_limit_hint) (res_status 500 (stream_headers new_response))"
    by (simp add: on_error_before_output)
next
  assume a: "p \<noteq> [] \<and> List.find (passes gw) (openRouterKeys e) = Some k \<and>
    completions_create gw (bound_client k) model_id (messages p html pp) =
      Some (chunks_then (d # ds) Throw) \<and>
    \<not> str_includes (concat (map content_of (d # ds))) closing_html"
  then have p: "p \<noteq> []" and f: "List.find (passes gw) (openRouterKeys e) = Some k"
    and c: "completions_create gw (bound_client k) model_id (messages p html pp) =
      Some (chunks_then (d # ds) Throw)"
    and i: "\<not> str_includes ([] @ concat (map content_of (d # ds))) closing_html"
    by simp_all
  from relay_throws [OF i, of 0 "stream_headers new_response"]
  have r: "relay (chunks_then (d # ds) Throw) [] 0 (stream_headers new_response) =
     (Inl StreamThrew, 0 + length (d # ds),
      (stream_headers new_response)\<lparr>headersSent := True,
         written := written (stream_headers new_response) @ map content_of (d # ds)\<rparr>)"
    by simp
  from ask_ai_streaming [OF p getWorkingClient_found [OF f] c r]
  have o: "res (snd (ask_ai e gw srv ip (Some p) html pp)) =
        (stream_headers new_response)
          \<lparr>headersSent := True, written := map content_of (d # ds), ended := True\<rparr>"
    by (simp add: on_error_def res_end_def written_stream_headers)
  then show "res (snd (ask_ai e gw srv ip (Some p) html pp)) =
        (stream_headers new_response)
          \<lparr>headersSent := True, written := map content_of (d # ds), ended := True\<rparr>" .
  from o show "sent (res (snd (ask_ai e gw srv ip (Some p) html pp))) = None"
    by (simp add: stream_headers_def res_setHeader_def new_response_def)
  from o show "statusCode (res (snd (ask_ai e gw srv ip (Some p) html pp))) = 200"
    by (simp add: stream_headers_def res_setHeader_def new_response_def)
qed

theorem upstream_failure_reporting_witness:
  "str ''make a page'' \<noteq> [] \<and>
   List.find (passes (gateway_with (Some Throw))) (openRouterKeys example_env) = Some (str ''key-a'') \<and>
   completions_create (gateway_with (Some Throw)) (bound_client (str ''key-a'')) model_id
     (messages (str ''make a page'') None None) = Some Throw \<and>
   res (snd (ask_ai example_env (gateway_with (Some Throw)) example_server (str ''10.0.0.1'')
          (Some (str ''make a page'')) None None)) =
     res_send (Failure token_limit_hint) (res_status 500 (stream_headers new_response)) \<and>
   completions_create (gateway_with (Some (chunks_then [Some (str ''<html>''), None] Throw)))
     (bound_client (str ''key-a'')) model_id (messages (str ''make a page'') None None) =
     Some (chunks_then [Some (str ''<html>''), None] Throw) \<and>
   \<not> str_includes (concat (map content_of [Some (str ''<html>''), None])) closing_html \<and>
   res (snd (ask_ai example_env (gateway_with (Some (chunks_then [Some (str ''<html>''), None] Throw)))
          example_server (str ''10.0.0.1'') (Some (str ''make a page'')) None None)) =
     \<lparr>statusCode = 200,
      headers = [(''Content-Type'', ''text/plain''), (''Cache-Control'', ''no-cache''),
                 (''Connection'', ''keep-alive'')],
      headersSent = True, written = [str ''<html>'', []], sent = None, ended = True\<rparr> \<and>
   res (snd (ask_ai example_env (gateway_with None) example_server (str ''10.0.0.1'')
          (Some (str ''make a page'')) None None)) =
     res_send (Failure token_limit_hint) (res_status 500 (stream_headers new_response)) \<and>
   res (snd (ask_ai example_env dead_gateway example_server (str ''10.0.0.1'')
          (Some (str ''make a page'')) None None)) =
     res_send (Failure token_limit_hint) (res_status 500 (stream_headers new_response))"
proof -
  have h1: "str ''make a page'' \<noteq> []" by (simp add: str_def)
  have h2: "\<And>a. List.find (passes (gateway_with a)) (openRouterKeys example_env) = Some (str ''key-a'')"
    by (rule find_gateway_with)
  have h3: "\<And>a. completions_create (gateway_with a) (bound_client (str ''key-a'')) model_id
     (messages (str ''make a page'') None None) = a"
    by (simp add: gateway_with_def)
  have h4: "\<not> str_includes (concat (map content_of [Some (str ''<html>''), None])) closing_html"
    by (simp add: content_of_def closing_html_def str_def)
  have h5: "\<forall>k\<in>set (openRouterKeys example_env). \<not> passes dead_gateway k"
    by (simp add: passes_def dead_gateway_def)
  from upstream_failure_reporting [of "str ''make a page''" example_env "gateway_with (Some Throw)"
      example_server "str ''10.0.0.1''" None None "str ''key-a''"] h1 h2 h3
  have a: "res (snd (ask_ai example_env (gateway_with (Some Throw)) example_server (str ''10.0.0.1'')
          (Some (str ''make a page'')) None None)) =
     res_send (Failure token_limit_hint) (res_status 500 (stream_headers new_response))"
    by simp
  from upstream_failure_reporting [of "str ''make a page''" example_env
      "gateway_with (Some (chunks_then [Some (str ''<html>''), None] Throw))"
      example_server "str ''10.0.0.1''" None None "str ''key-a''" "Some (str ''<html>'')" "[None]"]
    h1 h2 h3 h4
  have b: "res (snd (ask_ai example_env (gateway_with (Some (chunks_then [Some (str ''<html>''), None] Throw)))
          example_server (str ''10.0.0.1'') (Some (str ''make a page'')) None None)) =
     \<lparr>statusCode = 200,
      headers = [(''Content-Type'', ''text/plain''), (''Cache-Control'', ''no-cache''),
                 (''Connection'', ''keep-alive'')],
      headersSent = True, written = [str ''<html>'', []], sent = None, ended = True\<rparr>"
    by (simp add: content_of_def stream_headers_def res_setHeader_def new_response_def)
  from upstream_failure_reporting [of "str ''make a page''" example_env "gateway_with None"
      example_server "str ''10.0.0.1''" None None "str ''key-a''"] h1 h2 h3
  have c: "res (snd (ask_ai example_env (gateway_with None) example_server (str ''10.0.0.1'')
          (Some (str ''make a page'')) None None)) =
     res_send (Failure token_limit_hint) (res_status 500 (stream_headers new_response))"
    by simp
  from upstream_failure_reporting [of "str ''make a page''" example_env dead_gateway
      example_server "str ''10.0.0.1''" None None] h1 h5
  have d: "res (snd (ask_ai example_env dead_gateway example_server (str ''10.0.0.1'')
          (Some (str ''make a page'')) None None)) =
     res_send (Failure token_limit_hint) (res_status 500 (stream_headers new_response))"
    by simp
  from a b c d h1 h2 h3 h4 show ?thesis by simp
qed

text \<open>
  C9, as the code has it. The generate route applies no rate limit: the handler
  returns the process state, and with it \<open>ipAddresses\<close>, as it received it, and what
  it does for a request depends neither on that state nor on the address of the
  caller. So no entry is ever created or incremented, and any number of requests from
  one address are served.
\<close>

theorem generate_not_rate_limited:
  "fst (ask_ai e gw srv ip prompt html pp) = srv \<and>
   snd (ask_ai e gw srv ip prompt html pp) = snd (ask_ai e gw srv' ip' prompt html pp) \<and>
   fst (serve_all e gw srv reqs) = srv"
  using ask_ai_server ask_ai_independent serve_all_server by blast

theorem generate_not_rate_limited_witness:
  "fst (ask_ai example_env example_gateway example_server (str ''10.0.0.1'')
          (Some (str ''make a page'')) None None) = example_server \<and>
   snd (ask_ai example_env example_gateway example_server (str ''10.0.0.1'')
          (Some (str ''make a page'')) None None) =
   snd (ask_ai example_env example_gateway example_server (str ''10.0.0.2'')
          (Some (str ''make a page'')) None None)"
  using generate_not_rate_limited [of example_env example_gateway example_server "str ''10.0.0.1''"
      "Some (str ''make a page'')" None None example_server "str ''10.0.0.2''" "[]"]
  by simp

text \<open>
  C9, as stated, fails: five requests from one address, one more than
  \<open>MAX_REQUESTS_PER_IP\<close>, are all served a generation, and the counter has no entry
  for that address afterwards.
\<close>

theorem rate_limit_counterexample:
  "MAX_REQUESTS_PER_IP = 4 \<and> length five_requests = 5 \<and>
   ipAddresses (fst (serve_all example_env example_gateway example_server five_requests))
     (str ''10.0.0.1'') = None \<and>
   length (snd (serve_all example_env example_gateway example_server five_requests)) = 5 \<and>
   res (snd (serve_all example_env example_gateway example_server five_requests) ! 4) =
     \<lparr>statusCode = 200,
      headers = [(''Content-Type'', ''text/plain''), (''Cache-Control'', ''no-cache''),
                 (''Connection'', ''keep-alive'')],
      headersSent = True, written = [str ''<html>hi'', str ''</ht'', str ''ml>''],
      sent = None, ended = True\<rparr>"
  by (simp add: five_requests_def numeral_eq_Suc example_request_served MAX_REQUESTS_PER_IP_def
      example_server_def)

section \<open>The claims about the publish route\<close>

text \<open>
  C5, as stated, fails: the blob that is uploaded holds the UTF-8 encoding of the
  html, in which a surrogate without its partner is written as U+FFFD. The html
  \<open>a\ud800b\<close> is uploaded on the overwrite branch as the bytes of \<open>a\ufffdb\<close>, a
  different string.
\<close>

theorem publish_overwrite_branch_counterexample:
  "fst (deploy example_hub example_lower (str ''hf_abc'') (Some [0x61, 0xD800, 0x62])
       (Some (str ''My Cool App!!'')) (Some (str ''alice/my-cool-app''))) =
     [UploadFiles \<lparr>repo_type = str ''space'', repo_name = str ''alice/my-cool-app''\<rparr>
        [\<lparr>blob_name = str ''index.html'', blob_type = str ''text/html'',
          blob_content = [0x61, 0xEF, 0xBF, 0xBD, 0x62]\<rparr>]
        (str ''hf_abc'')] \<and>
   utf8_encode [0x61, 0xFFFD, 0x62] = [0x61, 0xEF, 0xBF, 0xBD, 0x62] \<and>
   [0x61, 0xD800, 0x62] \<noteq> ([0x61, 0xFFFD, 0x62] :: jsstring)"
proof -
  have h1: "[0x61, 0xD800, 0x62] \<noteq> ([] :: jsstring)" by simp
  have h2: "str ''My Cool App!!'' \<noteq> []" by (simp add: str_def)
  have h3: "str ''alice/my-cool-app'' \<noteq> []" by (simp add: str_def)
  have f: "fst (deploy example_hub example_lower (str ''hf_abc'') (Some [0x61, 0xD800, 0x62])
       (Some (str ''My Cool App!!'')) (Some (str ''alice/my-cool-app''))) =
     [UploadFiles \<lparr>repo_type = str ''space'', repo_name = str ''alice/my-cool-app''\<rparr>
        [\<lparr>blob_name = str ''index.html'', blob_type = str ''text/html'',
          blob_content = [0x61, 0xEF, 0xBF, 0xBD, 0x62]\<rparr>]
        (str ''hf_abc'')]"
    by (simp add: deploy_present [OF h1 h2] deploy_checked_overwrite [OF h3] fst_upload
        spread_if_def lone_surrogate_bytes)
  have n: "[0x61, 0xD800, 0x62] \<noteq> ([0x61, 0xFFFD, 0x62] :: jsstring)" by simp
  from f lone_surrogate_bytes n show ?thesis by simp
qed

text \<open>
  C5, as the code has it. On the overwrite branch, that is for a request with a
  non-empty \<open>path\<close> (and the required \<open>html\<close> and \<open>title\<close>), the only call to the hub
  is one upload to the repository \<open>path\<close> of the single file \<open>index.html\<close>, whose
  content is the UTF-8 encoding of the input html: no attribution, no descriptor, no
  creation. A well-formed html is encoded without loss (its scalar values give the
  html back) and an ASCII html byte for byte. When the upload succeeds the response
  carries \<open>path\<close> as supplied.
\<close>

theorem publish_overwrite_branch:
  assumes "hs \<noteq> []" and "ts \<noteq> []" and "p \<noteq> []"
  shows "fst (deploy h ul tok (Some hs) (Some ts) (Some p)) =
           [UploadFiles \<lparr>repo_type = str ''space'', repo_name = p\<rparr>
              [\<lparr>blob_name = str ''index.html'', blob_type = str ''text/html'',
                blob_content = utf8_encode hs\<rparr>]
              tok] \<and>
         (uploadFiles h \<lparr>repo_type = str ''space'', repo_name = p\<rparr>
              [\<lparr>blob_name = str ''index.html'', blob_type = str ''text/html'',
                blob_content = utf8_encode hs\<rparr>]
              tok = None \<longrightarrow>
          snd (deploy h ul tok (Some hs) (Some ts) (Some p)) =
            res_send (Published p) (res_status 200 new_response)) \<and>
         (well_formed hs \<longrightarrow> utf16_encode (scalar_values hs) = hs) \<and>
         ((\<forall>c\<in>set hs. c < 0x80) \<longrightarrow> utf8_encode hs = map byte_of hs)"
  using assms
  by (simp add: deploy_present deploy_checked_overwrite fst_upload snd_upload spread_if_def
      utf16_roundtrip utf8_encode_ascii)

theorem publish_overwrite_branch_witness:
  "str ''<body><h1>Hi</h1></body>'' \<noteq> [] \<and> str ''My Cool App!!'' \<noteq> [] \<and>
   str ''alice/my-cool-app'' \<noteq> [] \<and> well_formed (str ''<body><h1>Hi</h1></body>'') \<and>
   deploy example_hub example_lower (str ''hf_abc'') (Some (str ''<body><h1>Hi</h1></body>''))
       (Some (str ''My Cool App!!'')) (Some (str ''alice/my-cool-app'')) =
     ([UploadFiles \<lparr>repo_type = str ''space'', repo_name = str ''alice/my-cool-app''\<rparr>
         [\<lparr>blob_name = str ''index.html'', blob_type = str ''text/html'',
           blob_content = map byte_of (str ''<body><h1>Hi</h1></body>'')\<rparr>]
         (str ''hf_abc'')],
      \<lparr>statusCode = 200, headers = [], headersSent = True, written = [],
       sent = Some (Published (str ''alice/my-cool-app'')), ended = True\<rparr>) \<and>
   utf16_encode (scalar_values (str ''<body><h1>Hi</h1></body>'')) = str ''<body><h1>Hi</h1></body>''"
proof -
  have h1: "str ''<body><h1>Hi</h1></body>'' \<noteq> []" by (simp add: str_def)
  have h2: "str ''My Cool App!!'' \<noteq> []" by (simp add: str_def)
  have h3: "str ''alice/my-cool-app'' \<noteq> []" by (simp add: str_def)
  have h4: "uploadFiles example_hub rp files tok = None" for rp files tok
    by (simp add: example_hub_def)
  have h5: "\<forall>c\<in>set (str ''<body><h1>Hi</h1></body>''). c < 0x80" by (simp add: str_def)
  have h6: "well_formed (str ''<body><h1>Hi</h1></body>'')"
    by (simp add: str_def high_surrogate_def low_surrogate_def)
  note t = publish_overwrite_branch [OF h1 h2 h3, of example_hub example_lower "str ''hf_abc''"]
  note t2 = t [THEN conjunct2]
  note t3 = t2 [THEN conjunct2]
  from t3 [THEN conjunct2] h5
  have e: "utf8_encode (str ''<body><h1>Hi</h1></body>'') = map byte_of (str ''<body><h1>Hi</h1></body>'')"
    by blast
  from t3 [THEN conjunct1] h6
  have c: "utf16_encode (scalar_values (str ''<body><h1>Hi</h1></body>'')) = str ''<body><h1>Hi</h1></body>''"
    by blast
  from t [THEN conjunct1]
  have f: "fst (deploy example_hub example_lower (str ''hf_abc'') (Some (str ''<body><h1>Hi</h1></body>''))
       (Some (str ''My Cool App!!'')) (Some (str ''alice/my-cool-app''))) =
     [UploadFiles \<lparr>repo_type = str ''space'', repo_name = str ''alice/my-cool-app''\<rparr>
         [\<lparr>blob_name = str ''index.html'', blob_type = str ''text/html'',
           blob_content = map byte_of (str ''<body><h1>Hi</h1></body>'')\<rparr>]
         (str ''hf_abc'')]"
    by (simp only: e)
  from t2 [THEN conjunct1] h4
  have s: "snd (deploy example_hub example_lower (str ''hf_abc'') (Some (str ''<body><h1>Hi</h1></body>''))
       (Some (str ''My Cool App!!'')) (Some (str ''alice/my-cool-app''))) =
      \<lparr>statusCode = 200, headers = [], headersSent = True, written = [],
       sent = Some (Published (str ''alice/my-cool-app'')), ended = True\<rparr>"
    by (simp add: res_send_def res_status_def new_response_def)
  have d: "deploy example_hub example_lower (str ''hf_abc'') (Some (str ''<body><h1>Hi</h1></body>''))
       (Some (str ''My Cool App!!'')) (Some (str ''alice/my-cool-app'')) =
     ([UploadFiles \<lparr>repo_type = str ''space'', repo_name = str ''alice/my-cool-app''\<rparr>
         [\<lparr>blob_name = str ''index.html'', blob_type = str ''text/html'',
           blob_content = map byte_of (str ''<body><h1>Hi</h1></body>'')\<rparr>]
         (str ''hf_abc'')],
      \<lparr>statusCode = 200, headers = [], headersSent = True, written = [],
       sent = Some (Published (str ''alice/my-cool-app'')), ended = True\<rparr>)"
    by (simp add: prod_eq_iff f s)
  show ?thesis by (intro conjI h1 h2 h3 h6 d c)
qed

text \<open>
  C8, as stated, fails: a request with a target identifier and non-empty html but no
  title is rejected with status 400 and \<open>Missing required fields\<close>.
\<close>

theorem publish_requires_title_counterexample:
  "truthy (Some (str ''<body><h1>Hi</h1></body>'')) \<and>
   deploy example_hub example_lower (str ''hf_abc'') (Some (str ''<body><h1>Hi</h1></body>''))
       None (Some (str ''alice/my-cool-app'')) =
     ([], \<lparr>statusCode = 400, headers = [], headersSent = True, written = [],
           sent = Some (Failure (str ''Missing required fields'')), ended = True\<rparr>)"
  by (simp add: deploy_def truthy_def str_def missing_fields_def res_send_def res_status_def
      new_response_def)

text \<open>
  C8, as the code has it. The title is required for every publish request, whether
  or not a target identifier is supplied: a request whose html or title is absent or
  empty is rejected with status 400 before any call to the hub, and a request with
  both is never answered with status 400.
\<close>

theorem publish_requires_title:
  "(\<not> truthy html \<or> \<not> truthy title \<longrightarrow>
      deploy h ul tok html title path = ([], missing_fields)) \<and>
   (truthy html \<and> truthy title \<longrightarrow> statusCode (snd (deploy h ul tok html title path)) \<noteq> 400) \<and>
   statusCode missing_fields = 400"
proof (intro conjI impI)
  assume "\<not> truthy html \<or> \<not> truthy title"
  then show "deploy h ul tok html title path = ([], missing_fields)" by (rule deploy_missing)
next
  assume a: "truthy html \<and> truthy title"
  then obtain hs ts where "html = Some hs" "hs \<noteq> []" "title = Some ts" "ts \<noteq> []"
    by (auto simp: truthy_def split: option.splits)
  then show "statusCode (snd (deploy h ul tok html title path)) \<noteq> 400"
    by (simp add: deploy_present statusCode_deploy_checked)
next
  show "statusCode missing_fields = 400"
    by (simp add: missing_fields_def res_send_def res_status_def)
qed

theorem publish_requires_title_witness:
  "\<not> truthy None \<and>
   deploy example_hub example_lower (str ''hf_abc'') (Some (str ''<body><h1>Hi</h1></body>''))
     None (Some (str ''alice/my-cool-app'')) = ([], missing_fields) \<and>
   deploy example_hub example_lower (str ''hf_abc'') (Some (str ''<body><h1>Hi</h1></body>''))
     None None = ([], missing_fields) \<and>
   truthy (Some (str ''<body><h1>Hi</h1></body>'')) \<and> truthy (Some (str ''My Cool App!!'')) \<and>
   statusCode (snd (deploy example_hub example_lower (str ''hf_abc'')
     (Some (str ''<body><h1>Hi</h1></body>'')) (Some (str ''My Cool App!!''))
     (Some (str ''alice/my-cool-app'')))) \<noteq> 400"
proof -
  have h1: "\<not> truthy None" by (simp add: truthy_def)
  have h2: "truthy (Some (str ''<body><h1>Hi</h1></body>''))" by (simp add: truthy_def str_def)
  have h3: "truthy (Some (str ''My Cool App!!''))" by (simp add: truthy_def str_def)
  from publish_requires_title [of "Some (str ''<body><h1>Hi</h1></body>'')" None example_hub
      example_lower "str ''hf_abc''" "Some (str ''alice/my-cool-app'')"]
    publish_requires_title [of "Some (str ''<body><h1>Hi</h1></body>'')" None example_hub
      example_lower "str ''hf_abc''" None]
    publish_requires_title [of "Some (str ''<body><h1>Hi</h1></body>'')"
      "Some (str ''My Cool App!!'')" example_hub example_lower "str ''hf_abc''"
      "Some (str ''alice/my-cool-app'')"]
    h1 h2 h3
  show ?thesis by simp
qed

text \<open>
  C10. A \<open>path\<close> equal to the empty string behaves exactly like an absent one: the
  handler makes the same calls and gives the same response. With the required fields
  present that is the create branch: the user is looked up, the repository
  \<open>{namespace}/{slug}\<close> is created, and the html after the replacement of the
  closing body tag is uploaded together with the descriptor.
\<close>

theorem empty_path_is_absent:
  "deploy h ul tok html title (Some []) = deploy h ul tok html title None \<and>
   (hs \<noteq> [] \<and> ts \<noteq> [] \<and> whoAmI h tok = Inr ns \<and>
    createRepo h \<lparr>repo_type = str ''space'', repo_name = ns @ str ''/'' @ newTitle ul ts\<rparr> tok = None \<longrightarrow>
      fst (deploy h ul tok (Some hs) (Some ts) (Some [])) =
        [WhoAmI tok,
         CreateRepo \<lparr>repo_type = str ''space'', repo_name = ns @ str ''/'' @ newTitle ul ts\<rparr> tok,
         UploadFiles \<lparr>repo_type = str ''space'', repo_name = ns @ str ''/'' @ newTitle ul ts\<rparr>
           [\<lparr>blob_name = str ''index.html'', blob_type = str ''text/html'',
             blob_content = utf8_encode (replace_first closing_body (attribution @ closing_body) hs)\<rparr>,
            \<lparr>blob_name = str ''README.md'', blob_type = str ''text/markdown'',
             blob_content = utf8_encode (readme_of (newTitle ul ts))\<rparr>]
           tok])"
proof (intro conjI impI)
  show "deploy h ul tok html title (Some []) = deploy h ul tok html title None"
    by (rule deploy_empty_path)
next
  assume a: "hs \<noteq> [] \<and> ts \<noteq> [] \<and> whoAmI h tok = Inr ns \<and>
    createRepo h \<lparr>repo_type = str ''space'', repo_name = ns @ str ''/'' @ newTitle ul ts\<rparr> tok = None"
  then have hs: "hs \<noteq> []" and ts: "ts \<noteq> []" and w: "whoAmI h tok = Inr ns"
    and c: "createRepo h \<lparr>repo_type = str ''space'', repo_name = ns @ str ''/'' @ newTitle ul ts\<rparr> tok = None"
    by simp_all
  have f: "\<not> truthy (Some [])" by (simp add: truthy_def)
  from readme_of_truthy [of "newTitle ul ts"]
  show "fst (deploy h ul tok (Some hs) (Some ts) (Some [])) =
        [WhoAmI tok,
         CreateRepo \<lparr>repo_type = str ''space'', repo_name = ns @ str ''/'' @ newTitle ul ts\<rparr> tok,
         UploadFiles \<lparr>repo_type = str ''space'', repo_name = ns @ str ''/'' @ newTitle ul ts\<rparr>
           [\<lparr>blob_name = str ''index.html'', blob_type = str ''text/html'',
             blob_content = utf8_encode (replace_first closing_body (attribution @ closing_body) hs)\<rparr>,
            \<lparr>blob_name = str ''README.md'', blob_type = str ''text/markdown'',
             blob_content = utf8_encode (readme_of (newTitle ul ts))\<rparr>]
           tok]"
    by (simp add: deploy_present [OF hs ts] deploy_checked_create [OF f w c] fst_upload spread_if_def)
qed

theorem empty_path_is_absent_witness:
  "str ''<body><h1>Hi</h1></body>'' \<noteq> [] \<and> str ''My Cool App!!'' \<noteq> [] \<and>
   whoAmI example_hub (str ''hf_abc'') = Inr (str ''alice'') \<and>
   deploy example_hub example_lower (str ''hf_abc'') (Some (str ''<body><h1>Hi</h1></body>''))
       (Some (str ''My Cool App!!'')) (Some []) =
   deploy example_hub example_lower (str ''hf_abc'') (Some (str ''<body><h1>Hi</h1></body>''))
       (Some (str ''My Cool App!!'')) None \<and>
   fst (deploy example_hub example_lower (str ''hf_abc'') (Some (str ''<body><h1>Hi</h1></body>''))
       (Some (str ''My Cool App!!'')) (Some [])) =
     [WhoAmI (str ''hf_abc''),
      CreateRepo \<lparr>repo_type = str ''space'', repo_name = str ''alice/my-cool-app''\<rparr> (str ''hf_abc''),
      UploadFiles \<lparr>repo_type = str ''space'', repo_name = str ''alice/my-cool-app''\<rparr>
        [\<lparr>blob_name = str ''index.html'', blob_type = str ''text/html'',
          blob_content = utf8_encode (str ''<body><h1>Hi</h1>'' @ attribution @ str ''</body>'')\<rparr>,
         \<lparr>blob_name = str ''README.md'', blob_type = str ''text/markdown'',
          blob_content = utf8_encode (readme_of (str ''my-cool-app''))\<rparr>]
        (str ''hf_abc'')]"
proof -
  have h1: "str ''<body><h1>Hi</h1></body>'' \<noteq> []" by (simp add: str_def)
  have h2: "str ''My Cool App!!'' \<noteq> []" by (simp add: str_def)
  have r: "replace_first closing_body (attribution @ closing_body) (str ''<body><h1>Hi</h1></body>'') =
           str ''<body><h1>Hi</h1>'' @ attribution @ str ''</body>''"
    by (simp add: closing_body_def str_def)
  note t = empty_path_is_absent [of example_hub example_lower "str ''hf_abc''"
      "Some (str ''<body><h1>Hi</h1></body>'')" "Some (str ''My Cool App!!'')"
      "str ''<body><h1>Hi</h1></body>''" "str ''My Cool App!!''" "str ''alice''"]
  from t have c1: "deploy example_hub example_lower (str ''hf_abc'') (Some (str ''<body><h1>Hi</h1></body>''))
       (Some (str ''My Cool App!!'')) (Some []) =
   deploy example_hub example_lower (str ''hf_abc'') (Some (str ''<body><h1>Hi</h1></body>''))
       (Some (str ''My Cool App!!'')) None" by (rule conjunct1)
  from t [THEN conjunct2] h1 h2 example_whoAmI example_createRepo
  have c2: "fst (deploy example_hub example_lower (str ''hf_abc'') (Some (str ''<body><h1>Hi</h1></body>''))
       (Some (str ''My Cool App!!'')) (Some [])) =
     [WhoAmI (str ''hf_abc''),
      CreateRepo \<lparr>repo_type = str ''space'', repo_name = str ''alice/my-cool-app''\<rparr> (str ''hf_abc''),
      UploadFiles \<lparr>repo_type = str ''space'', repo_name = str ''alice/my-cool-app''\<rparr>
        [\<lparr>blob_name = str ''index.html'', blob_type = str ''text/html'',
          blob_content = utf8_encode (str ''<body><h1>Hi</h1>'' @ attribution @ str ''</body>'')\<rparr>,
         \<lparr>blob_name = str ''README.md'', blob_type = str ''text/markdown'',
          blob_content = utf8_encode (readme_of (str ''my-cool-app''))\<rparr>]
        (str ''hf_abc'')]"
    by (simp add: slug_example alice_slug r)
  show ?thesis by (intro conjI h1 h2 example_whoAmI c1 c2)
qed

text \<open>
  C4, as stated, fails: an html without a closing body tag is uploaded on the create
  branch as it is, without the attribution snippet.
\<close>

theorem publish_create_branch_counterexample:
  "fst (deploy example_hub example_lower (str ''hf_abc'') (Some (str ''<h1>Hi</h1>''))
       (Some (str ''My Cool App!!'')) None) =
     [WhoAmI (str ''hf_abc''),
      CreateRepo \<lparr>repo_type = str ''space'', repo_name = str ''alice/my-cool-app''\<rparr> (str ''hf_abc''),
      UploadFiles \<lparr>repo_type = str ''space'', repo_name = str ''alice/my-cool-app''\<rparr>
        [\<lparr>blob_name = str ''index.html'', blob_type = str ''text/html'',
          blob_content = utf8_encode (str ''<h1>Hi</h1>'')\<rparr>,
         \<lparr>blob_name = str ''README.md'', blob_type = str ''text/markdown'',
          blob_content = utf8_encode (readme_of (str ''my-cool-app''))\<rparr>]
        (str ''hf_abc'')] \<and>
   \<not> str_includes (str ''<h1>Hi</h1>'') attribution \<and>
   \<not> str_includes (utf8_encode (str ''<h1>Hi</h1>'')) (utf8_encode attribution)"
proof -
  have a1: "\<forall>c\<in>set (str ''<h1>Hi</h1>''). c < 0x80" by (simp add: str_def)
  have l1: "length (utf8_encode (str ''<h1>Hi</h1>'')) = 11"
    by (simp add: utf8_encode_ascii [OF a1]) (simp add: str_def)
  have l2: "length (utf8_encode attribution) = 446"
    by (simp add: utf8_encode_ascii [OF attribution_ascii]) (simp add: attribution_def str_def)
  have b: "\<not> str_includes (utf8_encode (str ''<h1>Hi</h1>'')) (utf8_encode attribution)"
    using str_includes_length [of "utf8_encode (str ''<h1>Hi</h1>'')" "utf8_encode attribution"]
      l1 l2 by auto
  have h1: "str ''<h1>Hi</h1>'' \<noteq> []" by (simp add: str_def)
  have h2: "str ''My Cool App!!'' \<noteq> []" by (simp add: str_def)
  have f: "\<not> truthy None" by (simp add: truthy_def)
  have r: "replace_first closing_body (attribution @ closing_body) (str ''<h1>Hi</h1>'') =
           str ''<h1>Hi</h1>''"
    by (simp add: closing_body_def str_def)
  have n: "\<not> str_includes (str ''<h1>Hi</h1>'') attribution"
    by (simp add: attribution_def str_def)
  from readme_of_truthy [of "str ''my-cool-app''"]
  have "fst (deploy example_hub example_lower (str ''hf_abc'') (Some (str ''<h1>Hi</h1>''))
       (Some (str ''My Cool App!!'')) None) =
     [WhoAmI (str ''hf_abc''),
      CreateRepo \<lparr>repo_type = str ''space'', repo_name = str ''alice/my-cool-app''\<rparr> (str ''hf_abc''),
      UploadFiles \<lparr>repo_type = str ''space'', repo_name = str ''alice/my-cool-app''\<rparr>
        [\<lparr>blob_name = str ''index.html'', blob_type = str ''text/html'',
          blob_content = utf8_encode (str ''<h1>Hi</h1>'')\<rparr>,
         \<lparr>blob_name = str ''README.md'', blob_type = str ''text/markdown'',
          blob_content = utf8_encode (readme_of (str ''my-cool-app''))\<rparr>]
        (str ''hf_abc'')]"
    by (simp add: deploy_present [OF h1 h2]
        deploy_checked_create [OF f example_whoAmI example_createRepo]
        fst_upload spread_if_def slug_example alice_slug r)
  with n b show ?thesis by simp
qed

text \<open>
  C4, as the code has it. On the create branch (no \<open>path\<close>, the required fields
  present, the user known and the repository created) the slug is the title
  lowercased, with every run of code units outside \<open>[a-z0-9]\<close> collapsed to one
  \<open>-\<close>, without leading or trailing separator, and then cut to 96 code units, so
  that \<open>My Cool App!!\<close> gives \<open>my-cool-app\<close>; the repository is
  \<open>{namespace}/{slug}\<close>; the descriptor \<open>README.md\<close> is uploaded with
  \<open>index.html\<close>; and when the html contains \<open></body>\<close>, the attribution snippet is
  inserted immediately before its first occurrence.
\<close>

theorem publish_create_branch:
  assumes "hs \<noteq> []" and "ts \<noteq> []" and "\<not> truthy path"
    and "whoAmI h tok = Inr ns"
    and "createRepo h \<lparr>repo_type = str ''space'', repo_name = ns @ str ''/'' @ newTitle ul ts\<rparr> tok = None"
  shows "newTitle ul ts = spec_slug ul ts \<and>
         newTitle ul (str ''My Cool App!!'') = str ''my-cool-app'' \<and>
         fst (deploy h ul tok (Some hs) (Some ts) path) =
           [WhoAmI tok,
            CreateRepo \<lparr>repo_type = str ''space'', repo_name = ns @ str ''/'' @ newTitle ul ts\<rparr> tok,
            UploadFiles \<lparr>repo_type = str ''space'', repo_name = ns @ str ''/'' @ newTitle ul ts\<rparr>
              [\<lparr>blob_name = str ''index.html'', blob_type = str ''text/html'',
                blob_content = utf8_encode (replace_first closing_body (attribution @ closing_body) hs)\<rparr>,
               \<lparr>blob_name = str ''README.md'', blob_type = str ''text/markdown'',
                blob_content = utf8_encode (readme_of (newTitle ul ts))\<rparr>]
              tok] \<and>
         (hs = pre @ closing_body @ post \<and>
          \<not> str_includes (pre @ butlast closing_body) closing_body \<longrightarrow>
            replace_first closing_body (attribution @ closing_body) hs =
              pre @ attribution @ closing_body @ post) \<and>
         (uploadFiles h \<lparr>repo_type = str ''space'', repo_name = ns @ str ''/'' @ newTitle ul ts\<rparr>
              [\<lparr>blob_name = str ''index.html'', blob_type = str ''text/html'',
                blob_content = utf8_encode (replace_first closing_body (attribution @ closing_body) hs)\<rparr>,
               \<lparr>blob_name = str ''README.md'', blob_type = str ''text/markdown'',
                blob_content = utf8_encode (readme_of (newTitle ul ts))\<rparr>]
              tok = None \<longrightarrow>
            snd (deploy h ul tok (Some hs) (Some ts) path) =
              res_send (Published (ns @ str ''/'' @ newTitle ul ts)) (res_status 200 new_response))"
proof (intro conjI impI)
  show "newTitle ul ts = spec_slug ul ts" by (rule newTitle_spec)
  show "newTitle ul (str ''My Cool App!!'') = str ''my-cool-app''" by (rule slug_example)
  note d = deploy_present [OF assms(1,2)] deploy_checked_create [OF assms(3,4,5)]
  from readme_of_truthy [of "newTitle ul ts"]
  show "fst (deploy h ul tok (Some hs) (Some ts) path) =
           [WhoAmI tok,
            CreateRepo \<lparr>repo_type = str ''space'', repo_name = ns @ str ''/'' @ newTitle ul ts\<rparr> tok,
            UploadFiles \<lparr>repo_type = str ''space'', repo_name = ns @ str ''/'' @ newTitle ul ts\<rparr>
              [\<lparr>blob_name = str ''index.html'', blob_type = str ''text/html'',
                blob_content = utf8_encode (replace_first closing_body (attribution @ closing_body) hs)\<rparr>,
               \<lparr>blob_name = str ''README.md'', blob_type = str ''text/markdown'',
                blob_content = utf8_encode (readme_of (newTitle ul ts))\<rparr>]
              tok]"
    by (simp add: d fst_upload spread_if_def)
  {
    assume "uploadFiles h \<lparr>repo_type = str ''space'', repo_name = ns @ str ''/'' @ newTitle ul ts\<rparr>
              [\<lparr>blob_name = str ''index.html'', blob_type = str ''text/html'',
                blob_content = utf8_encode (replace_first closing_body (attribution @ closing_body) hs)\<rparr>,
               \<lparr>blob_name = str ''README.md'', blob_type = str ''text/markdown'',
                blob_content = utf8_encode (readme_of (newTitle ul ts))\<rparr>]
              tok = None"
    with readme_of_truthy [of "newTitle ul ts"]
    show "snd (deploy h ul tok (Some hs) (Some ts) path) =
              res_send (Published (ns @ str ''/'' @ newTitle ul ts)) (res_status 200 new_response)"
      by (simp add: d snd_upload spread_if_def)
  }
  {
    assume a: "hs = pre @ closing_body @ post \<and>
          \<not> str_includes (pre @ butlast closing_body) closing_body"
    have ne: "closing_body \<noteq> []" by (simp add: closing_body_def str_def)
    from a replace_first_at [OF ne, of pre "attribution @ closing_body" post]
    show "replace_first closing_body (attribution @ closing_body) hs =
              pre @ attribution @ closing_body @ post"
      by simp
  }
qed

theorem publish_create_branch_witness:
  "str ''<body><h1>Hi</h1></body>'' \<noteq> [] \<and> str ''My Cool App!!'' \<noteq> [] \<and> \<not> truthy None \<and>
   whoAmI example_hub (str ''hf_abc'') = Inr (str ''alice'') \<and>
   str ''<body><h1>Hi</h1></body>'' = str ''<body><h1>Hi</h1>'' @ closing_body @ [] \<and>
   \<not> str_includes (str ''<body><h1>Hi</h1>'' @ butlast closing_body) closing_body \<and>
   newTitle example_lower (str ''My Cool App!!'') = str ''my-cool-app'' \<and>
   deploy example_hub example_lower (str ''hf_abc'') (Some (str ''<body><h1>Hi</h1></body>''))
       (Some (str ''My Cool App!!'')) None =
     ([WhoAmI (str ''hf_abc''),
       CreateRepo \<lparr>repo_type = str ''space'', repo_name = str ''alice/my-cool-app''\<rparr> (str ''hf_abc''),
       UploadFiles \<lparr>repo_type = str ''space'', repo_name = str ''alice/my-cool-app''\<rparr>
         [\<lparr>blob_name = str ''index.html'', blob_type = str ''text/html'',
           blob_content = utf8_encode (str ''<body><h1>Hi</h1>'' @ attribution @ str ''</body>'')\<rparr>,
          \<lparr>blob_name = str ''README.md'', blob_type = str ''text/markdown'',
           blob_content = utf8_encode (readme_of (str ''my-cool-app''))\<rparr>]
         (str ''hf_abc'')],
      \<lparr>statusCode = 200, headers = [], headersSent = True, written = [],
       sent = Some (Published (str ''alice/my-cool-app'')), ended = True\<rparr>)"
proof -
  have h1: "str ''<body><h1>Hi</h1></body>'' \<noteq> []" by (simp add: str_def)
  have h2: "str ''My Cool App!!'' \<noteq> []" by (simp add: str_def)
  have h3: "\<not> truthy None" by (simp add: truthy_def)
  have h6: "str ''<body><h1>Hi</h1></body>'' = str ''<body><h1>Hi</h1>'' @ closing_body @ []"
    by (simp add: closing_body_def str_def)
  have h7: "\<not> str_includes (str ''<body><h1>Hi</h1>'' @ butlast closing_body) closing_body"
    by (simp add: closing_body_def str_def)
  have cb: "closing_body = str ''</body>''" by (simp add: closing_body_def)
  note t = publish_create_branch [OF h1 h2 h3 example_whoAmI example_createRepo,
      of example_lower "str ''<body><h1>Hi</h1>''" "[]"]
  note t2 = t [THEN conjunct2]
  note t3 = t2 [THEN conjunct2]
  note t4 = t3 [THEN conjunct2]
  from t2 have c1: "newTitle example_lower (str ''My Cool App!!'') = str ''my-cool-app''"
    by (rule conjunct1)
  from t4 [THEN conjunct1] h6 h7
  have r: "replace_first closing_body (attribution @ closing_body) (str ''<body><h1>Hi</h1></body>'') =
           str ''<body><h1>Hi</h1>'' @ attribution @ closing_body @ []"
    by blast
  from t3 [THEN conjunct1] have f: "fst (deploy example_hub example_lower (str ''hf_abc'')
       (Some (str ''<body><h1>Hi</h1></body>'')) (Some (str ''My Cool App!!'')) None) =
       [WhoAmI (str ''hf_abc''),
       CreateRepo \<lparr>repo_type = str ''space'', repo_name = str ''alice/my-cool-app''\<rparr> (str ''hf_abc''),
       UploadFiles \<lparr>repo_type = str ''space'', repo_name = str ''alice/my-cool-app''\<rparr>
         [\<lparr>blob_name = str ''index.html'', blob_type = str ''text/html'',
           blob_content = utf8_encode (str ''<body><h1>Hi</h1>'' @ attribution @ str ''</body>'')\<rparr>,
          \<lparr>blob_name = str ''README.md'', blob_type = str ''text/markdown'',
           blob_content = utf8_encode (readme_of (str ''my-cool-app''))\<rparr>]
         (str ''hf_abc'')]"
    by (simp add: r [unfolded cb] c1 alice_slug cb)
  from t4 [THEN conjunct2] example_uploadFiles
  have s: "snd (deploy example_hub example_lower (str ''hf_abc'')
       (Some (str ''<body><h1>Hi</h1></body>'')) (Some (str ''My Cool App!!'')) None) =
      \<lparr>statusCode = 200, headers = [], headersSent = True, written = [],
       sent = Some (Published (str ''alice/my-cool-app'')), ended = True\<rparr>"
    by (simp add: c1 alice_slug res_send_def res_status_def new_response_def)
  have d: "deploy example_hub example_lower (str ''hf_abc'') (Some (str ''<body><h1>Hi</h1></body>''))
       (Some (str ''My Cool App!!'')) None =
     ([WhoAmI (str ''hf_abc''),
       CreateRepo \<lparr>repo_type = str ''space'', repo_name = str ''alice/my-cool-app''\<rparr> (str ''hf_abc''),
       UploadFiles \<lparr>repo_type = str ''space'', repo_name = str ''alice/my-cool-app''\<rparr>
         [\<lparr>blob_name = str ''index.html'', blob_type = str ''text/html'',
           blob_content = utf8_encode (str ''<body><h1>Hi</h1>'' @ attribution @ str ''</body>'')\<rparr>,
          \<lparr>blob_name = str ''README.md'', blob_type = str ''text/markdown'',
           blob_content = utf8_encode (readme_of (str ''my-cool-app''))\<rparr>]
         (str ''hf_abc'')],
      \<lparr>statusCode = 200, headers = [], headersSent = True, written = [],
       sent = Some (Published (str ''alice/my-cool-app'')), ended = True\<rparr>)"
    by (simp add: prod_eq_iff f s)
  show ?thesis by (intro conjI h1 h2 h3 example_whoAmI h6 h7 c1 d)
qed

end
